theory Spec2Isabelle
  imports Complex_Main "HOL-Library.Char_ord" "HOL-Library.List_Lexorder"
begin

section \<open>Python values, dictionaries and exceptions\<close>

text \<open>
  The orchestrator (\<open>gae_orchestrator.py\<close>) reads JSON-like dictionaries returned by the
  engine connection. A value is \<open>None\<close>, a bool, an int, a string or a nested dictionary;
  a dictionary is an association list read with \<open>map_of\<close>. Strings are byte strings
  (ASCII); numbers are integers; times and costs, floats in the source, are reals here.
\<close>

datatype pyval =
    PNone
  | PBool bool
  | PInt int
  | PStr string
  | PDict "(string \<times> pyval) list"

type_synonym pydict = "(string \<times> pyval) list"

datatype exn_class =
    RuntimeError | ValueError | TypeError | KeyError | AttributeError | TimeoutError
  | OtherError

text \<open>
  An exception (a subclass of \<open>Exception\<close>) with the text \<open>str(e)\<close> gives. What
  \<open>except Exception\<close> does not catch (\<open>KeyboardInterrupt\<close>, \<open>SystemExit\<close>) is not
  modelled.
\<close>

datatype exn = Exn exn_class string

fun exn_str :: "exn \<Rightarrow> string" where
  "exn_str (Exn c m) = m"

fun exn_cls :: "exn \<Rightarrow> exn_class" where
  "exn_cls (Exn c m) = c"

text \<open>\<open>bool(v)\<close>: what \<open>if v:\<close> tests.\<close>

fun truthy :: "pyval \<Rightarrow> bool" where
  "truthy PNone = False"
| "truthy (PBool b) = b"
| "truthy (PInt n) = (n \<noteq> 0)"
| "truthy (PStr s) = (s \<noteq> [])"
| "truthy (PDict d) = (d \<noteq> [])"

text \<open>\<open>k in d\<close>, \<open>d.get(k)\<close>, \<open>d.get(k, default)\<close> and \<open>a or b\<close>.\<close>

definition has_key :: "pydict \<Rightarrow> string \<Rightarrow> bool" where
  "has_key d k = (map_of d k \<noteq> None)"

definition dict_get :: "pydict \<Rightarrow> string \<Rightarrow> pyval" where
  "dict_get d k = (case map_of d k of None \<Rightarrow> PNone | Some v \<Rightarrow> v)"

definition dict_get_default :: "pydict \<Rightarrow> string \<Rightarrow> pyval \<Rightarrow> pyval" where
  "dict_get_default d k dflt = (case map_of d k of None \<Rightarrow> dflt | Some v \<Rightarrow> v)"

definition py_or :: "pyval \<Rightarrow> pyval \<Rightarrow> pyval" where
  "py_or a b = (if truthy a then a else b)"

subsection \<open>Formatting\<close>

definition digit_char :: "nat \<Rightarrow> char" where
  "digit_char d = char_of (48 + d)"

fun show_nat :: "nat \<Rightarrow> string" where
  "show_nat n = (if n < 10 then [digit_char n] else show_nat (n div 10) @ [digit_char (n mod 10)])"

declare show_nat.simps [simp del]

definition show_int :: "int \<Rightarrow> string" where
  "show_int i = (if i < 0 then CHR ''-'' # show_nat (nat (- i)) else show_nat (nat i))"

definition quoted :: "string \<Rightarrow> string" where
  "quoted s = CHR 0x27 # s @ [CHR 0x27]"

fun join_comma :: "string list \<Rightarrow> string" where
  "join_comma [] = []"
| "join_comma [x] = x"
| "join_comma (x # y # ys) = x @ '', '' @ join_comma (y # ys)"

text \<open>
  \<open>repr(v)\<close> and \<open>str(v)\<close>, which an f-string applies. A string inside a dictionary is
  shown between single quotes; Python's escaping of quotes and control characters inside
  such a string is left out.
\<close>

primrec py_repr :: "pyval \<Rightarrow> string" where
  "py_repr PNone = ''None''"
| "py_repr (PBool b) = (if b then ''True'' else ''False'')"
| "py_repr (PInt n) = show_int n"
| "py_repr (PStr s) = quoted s"
| "py_repr (PDict d) =
     ''{'' @ join_comma (map (\<lambda>kv. quoted (fst kv) @ '': '' @ snd kv) (map (map_prod id py_repr) d)) @ ''}''"

definition py_str :: "pyval \<Rightarrow> string" where
  "py_str v = (case v of PStr s \<Rightarrow> s | _ \<Rightarrow> py_repr v)"

fun type_name :: "pyval \<Rightarrow> string" where
  "type_name PNone = ''NoneType''"
| "type_name (PBool b) = ''bool''"
| "type_name (PInt n) = ''int''"
| "type_name (PStr s) = ''str''"
| "type_name (PDict d) = ''dict''"

subsection \<open>Comparison\<close>

text \<open>
  \<open>a >= b\<close> and \<open>a > b\<close>: numbers (bools count as 0 and 1) compare by value, two strings
  lexicographically, anything else raises \<open>TypeError\<close>.
\<close>

fun py_num :: "pyval \<Rightarrow> int option" where
  "py_num (PInt n) = Some n"
| "py_num (PBool b) = Some (if b then 1 else 0)"
| "py_num v = None"

definition cmp_error :: "string \<Rightarrow> pyval \<Rightarrow> pyval \<Rightarrow> exn" where
  "cmp_error opr a b = Exn TypeError (quoted opr @ '' not supported between instances of ''
      @ quoted (type_name a) @ '' and '' @ quoted (type_name b))"

definition py_ge :: "pyval \<Rightarrow> pyval \<Rightarrow> exn + bool" where
  "py_ge a b =
     (case (py_num a, py_num b) of
        (Some x, Some y) \<Rightarrow> Inr (y \<le> x)
      | _ \<Rightarrow> (case (a, b) of
                 (PStr s, PStr t) \<Rightarrow> Inr (t \<le> s)
               | _ \<Rightarrow> Inl (cmp_error ''>='' a b)))"

definition py_gt :: "pyval \<Rightarrow> pyval \<Rightarrow> exn + bool" where
  "py_gt a b =
     (case (py_num a, py_num b) of
        (Some x, Some y) \<Rightarrow> Inr (y < x)
      | _ \<Rightarrow> (case (a, b) of
                 (PStr s, PStr t) \<Rightarrow> Inr (t < s)
               | _ \<Rightarrow> Inl (cmp_error ''>'' a b)))"

section \<open>Retry classifier\<close>

text \<open>\<open>str.lower()\<close> on ASCII and \<open>p in s\<close> on strings.\<close>

definition lower_char :: "char \<Rightarrow> char" where
  "lower_char c =
     (let n = (of_char c :: nat) in if 65 \<le> n \<and> n \<le> 90 then char_of (n + 32) else c)"

definition lower :: "string \<Rightarrow> string" where
  "lower s = map lower_char s"

fun starts_with :: "string \<Rightarrow> string \<Rightarrow> bool" where
  "starts_with [] s = True"
| "starts_with (p # ps) [] = False"
| "starts_with (p # ps) (c # cs) = (p = c \<and> starts_with ps cs)"

fun str_in :: "string \<Rightarrow> string \<Rightarrow> bool" where
  "str_in p [] = (p = [])"
| "str_in p (c # cs) = (starts_with p (c # cs) \<or> str_in p cs)"

definition NON_RETRYABLE_ERRORS :: "string list" where
  "NON_RETRYABLE_ERRORS =
     [''ARANGO_GRAPH_TOKEN not set'',
      ''ARANGO_ENDPOINT not set'',
      ''ARANGO_DATABASE not set'',
      ''Missing required environment'',
      ''Configuration error'',
      ''Invalid configuration'',
      ''maximum recursion depth'']"

text \<open>The \<open>for pattern in ...\<close> loop of \<open>_is_retryable_error\<close>.\<close>

fun scan_patterns :: "string \<Rightarrow> string list \<Rightarrow> bool" where
  "scan_patterns error_lower [] = True"
| "scan_patterns error_lower (pattern # rest) =
     (if str_in (lower pattern) error_lower then False else scan_patterns error_lower rest)"

definition is_retryable_error :: "string \<Rightarrow> bool" where
  "is_retryable_error error_message = scan_patterns (lower error_message) NON_RETRYABLE_ERRORS"

section \<open>Data model\<close>

datatype AnalysisStatus =
    PENDING
  | ENGINE_DEPLOYING
  | GRAPH_LOADING
  | ALGORITHM_RUNNING
  | STORING_RESULTS
  | COMPLETED
  | FAILED
  | CLEANING_UP

text \<open>
  \<open>AnalysisConfig\<close> as it is after \<open>__post_init__\<close>. Its field \<open>estimated_cost_usd\<close> is
  \<open>cfg_estimated_cost_usd\<close> here, and the result's \<open>engine_size\<close> and \<open>algorithm\<close> are
  \<open>res_engine_size\<close> and \<open>res_algorithm\<close>, since both records have fields of these names.
\<close>

record AnalysisConfig =
  name :: string
  description :: string
  vertex_collections :: "string list"
  edge_collections :: "string list"
  vertex_attributes :: "string list option"
  database :: "string option"
  algorithm :: string
  algorithm_params :: pydict
  result_field :: "string option"
  engine_size :: string
  engine_type :: string
  target_collection :: string
  auto_cleanup :: bool
  retry_on_failure :: bool
  max_retries :: int
  timeout_seconds :: int
  cfg_estimated_cost_usd :: "real option"

record AnalysisResult =
  config :: AnalysisConfig
  status :: AnalysisStatus
  start_time :: real
  end_time :: "real option"
  duration_seconds :: "real option"
  engine_id :: pyval
  res_engine_size :: "string option"
  graph_id :: pyval
  vertex_count :: pyval
  edge_count :: pyval
  job_id :: pyval
  res_algorithm :: "string option"
  results_stored :: bool
  documents_updated :: "int option"
  estimated_cost_usd :: "real option"
  engine_runtime_minutes :: "real option"
  error_message :: "string option"
  retry_count :: int

text \<open>\<open>ENGINE_COSTS\<close>: hourly rates in USD.\<close>

definition ENGINE_COSTS :: "(string \<times> real) list" where
  "ENGINE_COSTS =
     [(''e4'', 0.20), (''e8'', 0.30), (''e16'', 0.40),
      (''e32'', 0.80), (''e64'', 1.60), (''e128'', 3.20)]"

definition DEFAULT_POLL_INTERVAL :: int where
  "DEFAULT_POLL_INTERVAL = 2"

section \<open>The engine connection, the database and the clock\<close>

text \<open>
  The collaborators of the orchestrator act on a world \<open>'w\<close> that the orchestrator cannot
  see: every method takes the world and returns its answer, or the exception it raises,
  with the new world. \<open>gae_list_engines\<close> and \<open>gae_current_engine_id\<close> are \<open>None\<close> when the
  connection object has no such attribute. \<open>clock\<close> reads the wall clock
  (\<open>datetime.now()\<close>, \<open>time.time()\<close>) in seconds.
\<close>

record 'w gae_env =
  connect :: "'w \<Rightarrow> exn option \<times> 'w"
  gae_list_engines :: "('w \<Rightarrow> (exn + pydict list) \<times> 'w) option"
  gae_deploy_engine :: "string \<Rightarrow> string \<Rightarrow> 'w \<Rightarrow> (exn + pydict) \<times> 'w"
  gae_current_engine_id :: "('w \<Rightarrow> pyval) option"
  gae_delete_engine :: "pyval \<Rightarrow> 'w \<Rightarrow> exn option \<times> 'w"
  gae_loaddata :: "string option \<Rightarrow> string list \<Rightarrow> string list \<Rightarrow> string option
                     \<Rightarrow> string list option \<Rightarrow> 'w \<Rightarrow> (exn + pydict) \<times> 'w"
  gae_run :: "string \<Rightarrow> pydict \<Rightarrow> 'w \<Rightarrow> (exn + pydict) \<times> 'w"
  gae_store_results :: "string \<Rightarrow> pyval list \<Rightarrow> string option list \<Rightarrow> string option
                     \<Rightarrow> 'w \<Rightarrow> (exn + pydict) \<times> 'w"
  gae_get_job :: "pyval \<Rightarrow> 'w \<Rightarrow> (exn + pydict) \<times> 'w"
  gae_get_graph :: "pyval \<Rightarrow> 'w \<Rightarrow> (exn + pydict) \<times> 'w"
  db_count :: "string \<Rightarrow> 'w \<Rightarrow> (exn + int) \<times> 'w"
  clock :: "'w \<Rightarrow> real"
  sleep :: "int \<Rightarrow> 'w \<Rightarrow> 'w"

text \<open>
  The history of a run: every call made to a collaborator, with the status the result
  record shows at that moment, and every exception the retry loop catches.
\<close>

datatype call =
    Connect
  | ListEngines
  | DeployEngine string string
  | DeleteEngine pyval
  | LoadData
  | RunAlgorithm string
  | StoreResults
  | GetJob pyval
  | GetGraph pyval
  | CountDocuments string
  | Sleep int

datatype event = Call AnalysisStatus call | Caught string

record 'w sys =
  world :: 'w
  calls :: "event list"

definition invoke :: "('w \<Rightarrow> 'a \<times> 'w) \<Rightarrow> event \<Rightarrow> 'w sys \<Rightarrow> 'a \<times> 'w sys" where
  "invoke f ev s = (case f (world s) of (a, w') \<Rightarrow> (a, \<lparr>world = w', calls = calls s @ [ev]\<rparr>))"

definition record_event :: "event \<Rightarrow> 'w sys \<Rightarrow> 'w sys" where
  "record_event ev s = s\<lparr>calls := calls s @ [ev]\<rparr>"

definition call_sleep :: "'w gae_env \<Rightarrow> AnalysisStatus \<Rightarrow> int \<Rightarrow> 'w sys \<Rightarrow> 'w sys" where
  "call_sleep env st secs s =
     \<lparr>world = sleep env secs (world s), calls = calls s @ [Call st (Sleep secs)]\<rparr>"

section \<open>Job poller\<close>

datatype poll = JobDone | JobFailed exn | JobPending

text \<open>
  One pass of the \<open>while True\<close> loop of \<open>_wait_for_job\<close> over the record \<open>get_job\<close>
  returned, up to the timeout check.
\<close>

definition inspect_job :: "string \<Rightarrow> pydict \<Rightarrow> poll" where
  "inspect_job descr job =
     (if has_key job ''progress'' \<and> has_key job ''total'' then
        (let progress = dict_get_default job ''progress'' (PInt 0);
             total = dict_get_default job ''total'' (PInt 1);
             has_error = dict_get_default job ''error'' (PBool False)
         in if truthy has_error then
              JobFailed (Exn RuntimeError (descr @ '' failed: ''
                 @ py_str (dict_get_default job ''error_message'' (PStr ''Unknown error''))))
            else (case py_ge progress total of
                    Inl e \<Rightarrow> JobFailed e
                  | Inr False \<Rightarrow> JobPending
                  | Inr True \<Rightarrow> (case py_gt total (PInt 0) of
                                  Inl e \<Rightarrow> JobFailed e
                                | Inr True \<Rightarrow> JobDone
                                | Inr False \<Rightarrow> JobPending)))
      else if has_key job ''status'' then
        (let stat = dict_get job ''status''
         in if stat = PStr ''succeeded'' then JobDone
            else if stat = PStr ''failed'' then
              JobFailed (Exn RuntimeError (descr @ '' failed: ''
                 @ py_str (dict_get_default job ''error'' (PStr ''Unknown error''))))
            else JobPending)
      else if has_key job ''state'' then
        (let state = dict_get job ''state''
         in if state \<in> set [PStr ''done'', PStr ''finished'', PStr ''completed''] then JobDone
            else if state \<in> set [PStr ''failed'', PStr ''error''] then
              JobFailed (Exn RuntimeError (descr @ '' failed: ''
                 @ py_str (dict_get_default job ''error'' (PStr ''Unknown error''))))
            else JobPending)
      else JobPending)"

text \<open>\<open>f"{elapsed:.0f}"\<close>: rounded to the nearest integer, ties to even.\<close>

definition round_half_even :: "real \<Rightarrow> int" where
  "round_half_even x =
     (let f = \<lfloor>x\<rfloor>; d = x - of_int f
      in if d < 1 / 2 then f else if d > 1 / 2 then f + 1 else if even f then f else f + 1)"

definition fmt_0f :: "real \<Rightarrow> string" where
  "fmt_0f x = (let n = round_half_even x in if n = 0 \<and> x < 0 then ''-0'' else show_int n)"

text \<open>
  The timeout check at the end of a pass: \<open>tmo\<close> is \<open>timeout_seconds\<close> of the current
  analysis, \<open>None\<close> when there is no current analysis.
\<close>

definition check_timeout :: "string \<Rightarrow> int option \<Rightarrow> real \<Rightarrow> exn option" where
  "check_timeout descr tmo elapsed =
     (case tmo of
        None \<Rightarrow> None
      | Some t \<Rightarrow> if elapsed > of_int t
                  then Some (Exn TimeoutError (descr @ '' timed out after '' @ fmt_0f elapsed @ ''s''))
                  else None)"

text \<open>
  The loop itself. It may poll forever (a job that stays pending while the clock stands
  still, or no current analysis): then the value is \<open>None\<close>.
\<close>

partial_function (option) poll_loop ::
  "'w gae_env \<Rightarrow> AnalysisStatus \<Rightarrow> int option \<Rightarrow> pyval \<Rightarrow> string \<Rightarrow> real \<Rightarrow> 'w sys
     \<Rightarrow> ((exn + pydict) \<times> 'w sys) option" where
  "poll_loop env st tmo jid descr start s =
     (case invoke (gae_get_job env jid) (Call st (GetJob jid)) s of
        (Inl e, s1) \<Rightarrow> Some (Inl e, s1)
      | (Inr job, s1) \<Rightarrow>
          (case inspect_job descr job of
             JobDone \<Rightarrow> Some (Inr job, s1)
           | JobFailed e \<Rightarrow> Some (Inl e, s1)
           | JobPending \<Rightarrow>
               (case check_timeout descr tmo (clock env (world s1) - start) of
                  Some e \<Rightarrow> Some (Inl e, s1)
                | None \<Rightarrow>
                    poll_loop env st tmo jid descr start
                      (call_sleep env st DEFAULT_POLL_INTERVAL s1))))"

declare poll_loop.simps [code]

definition wait_for_job ::
  "'w gae_env \<Rightarrow> AnalysisStatus \<Rightarrow> int option \<Rightarrow> pyval \<Rightarrow> string \<Rightarrow> 'w sys
     \<Rightarrow> ((exn + pydict) \<times> 'w sys) option" where
  "wait_for_job env st tmo jid descr s =
     poll_loop env st tmo jid descr (clock env (world s)) s"

section \<open>Workflow steps\<close>

definition opt_truthy :: "string option \<Rightarrow> bool" where
  "opt_truthy x = (case x of None \<Rightarrow> False | Some t \<Rightarrow> t \<noteq> [])"

text \<open>
  \<open>GAEConnectionBase.load_graph\<close>: the guard on the graph source, then the request
  (\<open>gae_loaddata\<close>, with the normalisation of its answer). Both connection classes
  reach this guard.
\<close>

definition conn_load_graph ::
  "'w gae_env \<Rightarrow> AnalysisStatus \<Rightarrow> string option \<Rightarrow> string list \<Rightarrow> string list
     \<Rightarrow> string option \<Rightarrow> string list option \<Rightarrow> 'w sys \<Rightarrow> (exn + pydict) \<times> 'w sys" where
  "conn_load_graph env st db vcs ecs graph_name vattrs s =
     (if \<not> opt_truthy graph_name \<and> \<not> (vcs \<noteq> [] \<and> ecs \<noteq> []) then
        (Inl (Exn ValueError
           ''Must specify either graph_name or both vertex_collections and edge_collections''), s)
      else invoke (gae_loaddata env db vcs ecs graph_name vattrs) (Call st LoadData) s)"

text \<open>\<open>_deploy_engine\<close>, with its handler that captures the connection's engine id.\<close>

definition deploy_failed ::
  "'w gae_env \<Rightarrow> exn \<Rightarrow> AnalysisResult \<Rightarrow> 'w sys \<Rightarrow> exn option \<times> AnalysisResult \<times> 'w sys" where
  "deploy_failed env e r s =
     (Some e,
      (case gae_current_engine_id env of
         None \<Rightarrow> r
       | Some cur \<Rightarrow>
           if truthy (cur (world s)) \<and> \<not> truthy (engine_id r)
           then r\<lparr>engine_id := cur (world s)\<rparr> else r),
      s)"

definition deploy_engine ::
  "'w gae_env \<Rightarrow> AnalysisResult \<Rightarrow> 'w sys \<Rightarrow> exn option \<times> AnalysisResult \<times> 'w sys" where
  "deploy_engine env r s =
     (let r1 = r\<lparr>status := ENGINE_DEPLOYING\<rparr>;
          size_id = engine_size (config r1);
          type_id = engine_type (config r1)
      in case invoke (gae_deploy_engine env size_id type_id)
                (Call ENGINE_DEPLOYING (DeployEngine size_id type_id)) s of
           (Inl e, s1) \<Rightarrow> deploy_failed env e r1 s1
         | (Inr engine_info, s1) \<Rightarrow>
             (case map_of engine_info ''id'' of
                None \<Rightarrow> deploy_failed env (Exn KeyError (quoted ''id'')) r1 s1
              | Some v \<Rightarrow> (None, r1\<lparr>engine_id := v\<rparr>, s1)))"

text \<open>
  \<open>f"{count:,}"\<close> in the log lines of \<open>_load_graph\<close>, reached when the count is truthy:
  a number formats, a string or a dictionary raises.
\<close>

definition fmt_count :: "pyval \<Rightarrow> exn option" where
  "fmt_count v =
     (if \<not> truthy v then None
      else (case v of
              PStr t \<Rightarrow> Some (Exn ValueError (''Cannot specify '' @ quoted '','' @ '' with '' @ quoted ''s'' @ ''.''))
            | PDict d \<Rightarrow> Some (Exn TypeError ''unsupported format string passed to dict.__format__'')
            | _ \<Rightarrow> None))"

definition load_graph_details ::
  "'w gae_env \<Rightarrow> AnalysisResult \<Rightarrow> 'w sys \<Rightarrow> exn option \<times> AnalysisResult \<times> 'w sys" where
  "load_graph_details env r s =
     (case invoke (gae_get_graph env (graph_id r)) (Call GRAPH_LOADING (GetGraph (graph_id r))) s of
        (res, s1) \<Rightarrow>
          (let r1 = (case res of
                       Inl e \<Rightarrow> r
                     | Inr graph_details \<Rightarrow>
                         r\<lparr>vertex_count := dict_get_default graph_details ''vertex_count'' (PInt 0),
                           edge_count := dict_get_default graph_details ''edge_count'' (PInt 0)\<rparr>)
           in case fmt_count (vertex_count r1) of
                Some e \<Rightarrow> (Some e, r1, s1)
              | None \<Rightarrow> (fmt_count (edge_count r1), r1, s1)))"

definition load_graph ::
  "'w gae_env \<Rightarrow> AnalysisResult \<Rightarrow> 'w sys \<Rightarrow> (exn option \<times> AnalysisResult \<times> 'w sys) option" where
  "load_graph env r s =
     (let r1 = r\<lparr>status := GRAPH_LOADING\<rparr>; cfg = config r1
      in case conn_load_graph env GRAPH_LOADING (database cfg) (vertex_collections cfg)
                (edge_collections cfg) None (vertex_attributes cfg) s of
           (Inl e, s1) \<Rightarrow> Some (Some e, r1, s1)
         | (Inr graph_info, s1) \<Rightarrow>
             (let r2 = r1\<lparr>graph_id := py_or (dict_get graph_info ''graph_id'') (dict_get graph_info ''id'')\<rparr>;
                  jid = py_or (dict_get graph_info ''job_id'') (dict_get graph_info ''id'')
              in if truthy jid then
                   (case wait_for_job env GRAPH_LOADING (Some (timeout_seconds cfg)) jid
                           ''Graph loading'' s1 of
                      None \<Rightarrow> None
                    | Some (Inl e, s2) \<Rightarrow> Some (Some e, r2, s2)
                    | Some (Inr job, s2) \<Rightarrow> Some (load_graph_details env r2 s2))
                 else Some (load_graph_details env r2 s1)))"

text \<open>
  \<open>job_result.get('statistics', {}).get('execution_time_ms', 0) / 1000\<close> at the end of
  \<open>_run_algorithm\<close>: the exception it raises, if any.
\<close>

definition execution_time_error :: "pydict \<Rightarrow> exn option" where
  "execution_time_error job_result =
     (case dict_get_default job_result ''statistics'' (PDict []) of
        PDict stats \<Rightarrow>
          (let v = dict_get_default stats ''execution_time_ms'' (PInt 0)
           in case py_num v of
                Some n \<Rightarrow> None
              | None \<Rightarrow> Some (Exn TypeError (''unsupported operand type(s) for /: ''
                           @ quoted (type_name v) @ '' and '' @ quoted ''int'')))
      | other \<Rightarrow> Some (Exn AttributeError
                   (quoted (type_name other) @ '' object has no attribute '' @ quoted ''get'')))"

text \<open>
  \<open>_run_algorithm\<close>. The keyword arguments \<open>{'graph_id': ..., **algorithm_params}\<close> are the
  association list with the parameters first, so that a \<open>graph_id\<close> among them wins.
\<close>

definition run_algorithm ::
  "'w gae_env \<Rightarrow> AnalysisResult \<Rightarrow> 'w sys \<Rightarrow> (exn option \<times> AnalysisResult \<times> 'w sys) option" where
  "run_algorithm env r s =
     (let r1 = r\<lparr>status := ALGORITHM_RUNNING\<rparr>; cfg = config r1;
          params = algorithm_params cfg @ [(''graph_id'', graph_id r1)];
          alg = algorithm cfg
      in if alg \<in> set [''pagerank'', ''label_propagation'', ''scc'', ''wcc''] then
           (case invoke (gae_run env alg params) (Call ALGORITHM_RUNNING (RunAlgorithm alg)) s of
              (Inl e, s1) \<Rightarrow> Some (Some e, r1, s1)
            | (Inr job_info, s1) \<Rightarrow>
                (let r2 = r1\<lparr>job_id := py_or (dict_get job_info ''job_id'') (dict_get job_info ''id'')\<rparr>
                 in case wait_for_job env ALGORITHM_RUNNING (Some (timeout_seconds cfg)) (job_id r2)
                           (alg @ '' computation'') s1 of
                      None \<Rightarrow> None
                    | Some (Inl e, s2) \<Rightarrow> Some (Some e, r2, s2)
                    | Some (Inr job_result, s2) \<Rightarrow> Some (execution_time_error job_result, r2, s2)))
         else if alg = ''betweenness'' then
           Some (Some (Exn ValueError ''Betweenness centrality not yet supported''), r1, s)
         else Some (Some (Exn ValueError (''Unsupported algorithm: '' @ alg)), r1, s))"

text \<open>\<open>_store_results\<close>; the document count afterwards is best effort.\<close>

definition count_documents ::
  "'w gae_env \<Rightarrow> AnalysisResult \<Rightarrow> 'w sys \<Rightarrow> exn option \<times> AnalysisResult \<times> 'w sys" where
  "count_documents env r s =
     (let r1 = r\<lparr>results_stored := True\<rparr>; target = target_collection (config r1)
      in case invoke (db_count env target) (Call STORING_RESULTS (CountDocuments target)) s of
           (Inl e, s1) \<Rightarrow> (None, r1, s1)
         | (Inr n, s1) \<Rightarrow> (None, r1\<lparr>documents_updated := Some n\<rparr>, s1))"

definition store_results ::
  "'w gae_env \<Rightarrow> AnalysisResult \<Rightarrow> 'w sys \<Rightarrow> (exn option \<times> AnalysisResult \<times> 'w sys) option" where
  "store_results env r s =
     (let r1 = r\<lparr>status := STORING_RESULTS\<rparr>; cfg = config r1
      in case invoke (gae_store_results env (target_collection cfg) [job_id r1] [result_field cfg]
                        (database cfg)) (Call STORING_RESULTS StoreResults) s of
           (Inl e, s1) \<Rightarrow> Some (Some e, r1, s1)
         | (Inr store_info, s1) \<Rightarrow>
             (let jid = py_or (dict_get store_info ''job_id'') (dict_get store_info ''id'')
              in if truthy jid then
                   (case wait_for_job env STORING_RESULTS (Some (timeout_seconds cfg)) jid
                           ''Results storage'' s1 of
                      None \<Rightarrow> None
                    | Some (Inl e, s2) \<Rightarrow> Some (Some e, r1, s2)
                    | Some (Inr job, s2) \<Rightarrow> Some (count_documents env r1 s2))
                 else Some (count_documents env r1 s1)))"

text \<open>\<open>_cleanup_engine\<close>: the \<open>finally\<close> block restores a terminal status either way.\<close>

definition cleanup_engine ::
  "'w gae_env \<Rightarrow> AnalysisResult \<Rightarrow> 'w sys \<Rightarrow> exn option \<times> AnalysisResult \<times> 'w sys" where
  "cleanup_engine env r s =
     (let original_status = status r;
          r1 = r\<lparr>status := CLEANING_UP\<rparr>
      in case invoke (gae_delete_engine env (engine_id r1))
                (Call (status r1) (DeleteEngine (engine_id r1))) s of
           (res, s1) \<Rightarrow>
             (res,
              (if original_status \<in> set [COMPLETED, FAILED]
               then r1\<lparr>status := original_status\<rparr> else r1),
              s1))"

text \<open>The four steps inside the \<open>try\<close> of one iteration: the first exception ends them.\<close>

definition execute_steps ::
  "'w gae_env \<Rightarrow> AnalysisResult \<Rightarrow> 'w sys \<Rightarrow> (exn option \<times> AnalysisResult \<times> 'w sys) option" where
  "execute_steps env r s =
     (case deploy_engine env r s of
        (Some e, r1, s1) \<Rightarrow> Some (Some e, r1, s1)
      | (None, r1, s1) \<Rightarrow>
          (case load_graph env r1 s1 of
             None \<Rightarrow> None
           | Some (Some e, r2, s2) \<Rightarrow> Some (Some e, r2, s2)
           | Some (None, r2, s2) \<Rightarrow>
               (case run_algorithm env r2 s2 of
                  None \<Rightarrow> None
                | Some (Some e, r3, s3) \<Rightarrow> Some (Some e, r3, s3)
                | Some (None, r3, s3) \<Rightarrow> store_results env r3 s3)))"

section \<open>The retry loop and \<open>run_analysis\<close>\<close>

definition hourly_rate :: "string \<Rightarrow> real" where
  "hourly_rate size_id = (case map_of ENGINE_COSTS size_id of None \<Rightarrow> 0 | Some c \<Rightarrow> c)"

text \<open>The success branch of an iteration, after the four steps.\<close>

definition mark_completed ::
  "'w gae_env \<Rightarrow> AnalysisConfig \<Rightarrow> AnalysisResult \<Rightarrow> 'w sys \<Rightarrow> AnalysisResult" where
  "mark_completed env cfg r s =
     (let now = clock env (world s);
          d = now - start_time r;
          minutes = d / 60;
          hourly_cost = hourly_rate (engine_size cfg)
      in r\<lparr>status := COMPLETED,
           end_time := Some now,
           duration_seconds := Some d,
           engine_runtime_minutes := Some minutes,
           estimated_cost_usd :=
             (if hourly_cost > 0 then Some ((minutes / 60) * hourly_cost)
              else estimated_cost_usd r)\<rparr>)"

text \<open>The first lines of the \<open>except Exception as e\<close> branch.\<close>

definition mark_failed ::
  "'w gae_env \<Rightarrow> exn \<Rightarrow> AnalysisResult \<Rightarrow> 'w sys \<Rightarrow> AnalysisResult" where
  "mark_failed env e r s =
     (let now = clock env (world s)
      in r\<lparr>status := FAILED,
           error_message := Some (exn_str e),
           end_time := Some now,
           duration_seconds := Some (now - start_time r)\<rparr>)"

text \<open>
  The teardown before a retry: \<open>engine_id = None\<close> follows \<open>_cleanup_engine\<close> inside the
  \<open>try\<close>, so it is skipped when the teardown raises.
\<close>

definition cleanup_before_retry ::
  "'w gae_env \<Rightarrow> AnalysisResult \<Rightarrow> 'w sys \<Rightarrow> AnalysisResult \<times> 'w sys" where
  "cleanup_before_retry env r s =
     (if truthy (engine_id r) then
        (case cleanup_engine env r s of
           (None, r1, s1) \<Rightarrow> (r1\<lparr>engine_id := PNone\<rparr>, s1)
         | (Some cleanup_err, r1, s1) \<Rightarrow> (r1, s1))
      else (r, s))"

definition max_attempts :: "AnalysisConfig \<Rightarrow> int" where
  "max_attempts cfg = (if retry_on_failure cfg then max_retries cfg + 1 else 1)"

text \<open>How an iteration leaves: \<open>break\<close>, or \<open>continue\<close> after \<open>attempt += 1\<close>.\<close>

datatype 'w loop_exit = Break AnalysisResult "'w sys" | Retry AnalysisResult "'w sys"

definition on_exception ::
  "'w gae_env \<Rightarrow> AnalysisConfig \<Rightarrow> int \<Rightarrow> exn \<Rightarrow> AnalysisResult \<Rightarrow> 'w sys \<Rightarrow> 'w loop_exit" where
  "on_exception env cfg attempt e r s =
     (let r1 = mark_failed env e r s;
          s1 = record_event (Caught (exn_str e)) s
      in if \<not> is_retryable_error (exn_str e) then Break r1 s1
         else if retry_on_failure cfg \<and> attempt < max_retries cfg then
           (case cleanup_before_retry env r1 s1 of (r2, s2) \<Rightarrow> Retry r2 s2)
         else Break r1 s1)"

definition iteration ::
  "'w gae_env \<Rightarrow> AnalysisConfig \<Rightarrow> int \<Rightarrow> AnalysisResult \<Rightarrow> 'w sys \<Rightarrow> 'w loop_exit option" where
  "iteration env cfg attempt r s =
     (case execute_steps env (if attempt > 0 then r\<lparr>retry_count := attempt\<rparr> else r) s of
        None \<Rightarrow> None
      | Some (None, r1, s1) \<Rightarrow> Some (Break (mark_completed env cfg r1 s1) s1)
      | Some (Some e, r1, s1) \<Rightarrow> Some (on_exception env cfg attempt e r1 s1))"

function retry_loop ::
  "'w gae_env \<Rightarrow> AnalysisConfig \<Rightarrow> int \<Rightarrow> AnalysisResult \<Rightarrow> 'w sys
     \<Rightarrow> (AnalysisResult \<times> 'w sys) option" where
  "retry_loop env cfg attempt r s =
     (if attempt < max_attempts cfg then
        (case iteration env cfg attempt r s of
           None \<Rightarrow> None
         | Some (Break r1 s1) \<Rightarrow> Some (r1, s1)
         | Some (Retry r1 s1) \<Rightarrow> retry_loop env cfg (attempt + 1) r1 s1)
      else Some (r, s))"
  by pat_completeness auto
termination
  by (relation "measure (\<lambda>(env, cfg, attempt, r, s). nat (max_attempts cfg - attempt))") auto

declare retry_loop.simps [simp del]

text \<open>The block after the loop: cleanup failures are caught.\<close>

definition final_cleanup ::
  "'w gae_env \<Rightarrow> AnalysisConfig \<Rightarrow> AnalysisResult \<Rightarrow> 'w sys \<Rightarrow> AnalysisResult \<times> 'w sys" where
  "final_cleanup env cfg r s =
     (if truthy (engine_id r) then
        (if auto_cleanup cfg then
           (case cleanup_engine env r s of (res, r1, s1) \<Rightarrow> (r1, s1))
         else (r, s))
      else (r, s))"

text \<open>\<open>_check_existing_engines\<close>.\<close>

definition engine_label :: "pydict \<Rightarrow> exn + string" where
  "engine_label e =
     (case map_of e ''id'' of
        None \<Rightarrow> Inl (Exn KeyError (quoted ''id''))
      | Some v \<Rightarrow> Inr (py_str v @ '' ('' @ py_str (dict_get_default e ''size_id'' (PStr ''unknown'')) @ '')''))"

fun engine_labels :: "pydict list \<Rightarrow> exn + string list" where
  "engine_labels [] = Inr []"
| "engine_labels (e # es) =
     (case engine_label e of
        Inl err \<Rightarrow> Inl err
      | Inr l \<Rightarrow> (case engine_labels es of Inl err \<Rightarrow> Inl err | Inr ls \<Rightarrow> Inr (l # ls)))"

definition existing_engines_handler :: "exn \<Rightarrow> 'w sys \<Rightarrow> exn option \<times> 'w sys" where
  "existing_engines_handler e s =
     (if exn_cls e = AttributeError then (None, s)
      else if str_in ''already running'' (exn_str e) then (Some e, s)
      else (None, s))"

definition check_existing_engines :: "'w gae_env \<Rightarrow> 'w sys \<Rightarrow> exn option \<times> 'w sys" where
  "check_existing_engines env s =
     (case gae_list_engines env of
        None \<Rightarrow> (None, s)
      | Some list_engines \<Rightarrow>
          (case invoke list_engines (Call PENDING ListEngines) s of
             (Inl e, s1) \<Rightarrow> existing_engines_handler e s1
           | (Inr existing, s1) \<Rightarrow>
               if existing = [] then (None, s1)
               else (case engine_labels existing of
                       Inl e \<Rightarrow> existing_engines_handler e s1
                     | Inr engine_info \<Rightarrow>
                         existing_engines_handler
                           (Exn RuntimeError (''Engines already running: '' @ join_comma engine_info
                              @ ''. Delete them first or risk multiple billing charges.'')) s1)))"

definition initialize_connections :: "'w gae_env \<Rightarrow> 'w sys \<Rightarrow> exn option \<times> 'w sys" where
  "initialize_connections env s = invoke (connect env) (Call PENDING Connect) s"

definition new_result :: "AnalysisConfig \<Rightarrow> real \<Rightarrow> AnalysisResult" where
  "new_result cfg now =
     \<lparr>config = cfg, status = PENDING, start_time = now, end_time = None,
      duration_seconds = None, engine_id = PNone, res_engine_size = Some (engine_size cfg),
      graph_id = PNone, vertex_count = PNone, edge_count = PNone, job_id = PNone,
      res_algorithm = Some (algorithm cfg), results_stored = False, documents_updated = None,
      estimated_cost_usd = None, engine_runtime_minutes = None, error_message = None,
      retry_count = 0\<rparr>"

text \<open>
  \<open>run_analysis\<close>: \<open>Inl e\<close> when the call raises \<open>e\<close> (only the two steps before the loop
  can), \<open>Inr r\<close> when it returns \<open>r\<close>, \<open>None\<close> when a poll never ends.
\<close>

definition run_analysis ::
  "'w gae_env \<Rightarrow> AnalysisConfig \<Rightarrow> 'w sys \<Rightarrow> ((exn + AnalysisResult) \<times> 'w sys) option" where
  "run_analysis env cfg s =
     (let r0 = new_result cfg (clock env (world s))
      in case initialize_connections env s of
           (Some e, s1) \<Rightarrow> Some (Inl e, s1)
         | (None, s1) \<Rightarrow>
             (case check_existing_engines env s1 of
                (Some e, s2) \<Rightarrow> Some (Inl e, s2)
              | (None, s2) \<Rightarrow>
                  (case retry_loop env cfg 0 r0 s2 of
                     None \<Rightarrow> None
                   | Some (r1, s3) \<Rightarrow>
                       (case final_cleanup env cfg r1 s3 of (r2, s4) \<Rightarrow> Some (Inr r2, s4)))))"

section \<open>The connection's own poller\<close>

definition COMPLETED_STATES :: "pyval list" where
  "COMPLETED_STATES = [PStr ''done'', PStr ''finished'', PStr ''completed'', PStr ''succeeded'']"

definition FAILED_STATES :: "pyval list" where
  "FAILED_STATES = [PStr ''failed'', PStr ''error'']"

text \<open>
  One pass of the loop of \<open>GenAIGAEConnection.wait_for_job\<close> over the record \<open>get_job\<close>
  returned, after its timeout check.
\<close>

definition conn_inspect_job :: "string \<Rightarrow> pydict \<Rightarrow> poll" where
  "conn_inspect_job jid job =
     (case dict_get_default job ''status'' (PDict []) of
        PDict stat \<Rightarrow>
          (let state = dict_get_default stat ''state'' (dict_get_default job ''state'' (PStr ''unknown''));
               by_state =
                 (if state \<in> set COMPLETED_STATES then JobDone
                  else if state \<in> set FAILED_STATES then
                    JobFailed (Exn RuntimeError (''Job '' @ jid @ '' failed: ''
                      @ py_str (dict_get_default stat ''error''
                                 (dict_get_default job ''error'' (PStr ''Unknown error'')))))
                  else JobPending)
           in if has_key job ''progress'' \<and> has_key job ''total'' then
                (let progress = dict_get_default job ''progress'' (PInt 0);
                     total = dict_get_default job ''total'' (PInt 1)
                 in if truthy (dict_get_default job ''error'' (PBool False)) then
                      JobFailed (Exn RuntimeError (''Job '' @ jid @ '' failed: ''
                        @ py_str (dict_get_default job ''error_message''
                                   (dict_get_default job ''errorMessage'' (PStr ''Unknown error'')))))
                    else (case py_ge progress total of
                            Inl e \<Rightarrow> JobFailed e
                          | Inr False \<Rightarrow> by_state
                          | Inr True \<Rightarrow> (case py_gt total (PInt 0) of
                                          Inl e \<Rightarrow> JobFailed e
                                        | Inr True \<Rightarrow> JobDone
                                        | Inr False \<Rightarrow> by_state)))
              else by_state)
      | other \<Rightarrow> JobFailed (Exn AttributeError
                   (quoted (type_name other) @ '' object has no attribute '' @ quoted ''get'')))"

section \<open>Reading a run's history\<close>

fun is_deploy :: "event \<Rightarrow> bool" where
  "is_deploy (Call st (DeployEngine size_id type_id)) = True"
| "is_deploy ev = False"

fun is_loaddata :: "event \<Rightarrow> bool" where
  "is_loaddata (Call st LoadData) = True"
| "is_loaddata ev = False"

text \<open>How often \<open>deploy_engine\<close> was called, and the messages the retry loop caught, in order.\<close>

definition deploy_count :: "event list \<Rightarrow> nat" where
  "deploy_count evs = length (filter is_deploy evs)"

fun caught_msgs :: "event list \<Rightarrow> string list" where
  "caught_msgs [] = []"
| "caught_msgs (Caught m # evs) = m # caught_msgs evs"
| "caught_msgs (Call st c # evs) = caught_msgs evs"

text \<open>What a call of \<open>run_analysis\<close> returned, and the history it left.\<close>

definition returned :: "((exn + AnalysisResult) \<times> 'w sys) option \<Rightarrow> AnalysisResult option" where
  "returned out = (case out of Some (Inr r, s) \<Rightarrow> Some r | _ \<Rightarrow> None)"

definition history :: "((exn + AnalysisResult) \<times> 'w sys) option \<Rightarrow> event list" where
  "history out = (case out of Some (res, s) \<Rightarrow> calls s | None \<Rightarrow> [])"

text \<open>How an iteration left, read off its exit.\<close>

fun exit_result :: "'w loop_exit \<Rightarrow> AnalysisResult" where
  "exit_result (Break r s) = r"
| "exit_result (Retry r s) = r"

fun is_retry :: "'w loop_exit \<Rightarrow> bool" where
  "is_retry (Break r s) = False"
| "is_retry (Retry r s) = True"

section \<open>A mock connection\<close>

text \<open>
  A connection in the manner of \<open>tests/test_gae_orchestrator.py\<close>. The world is the
  number of \<open>deploy_engine\<close> calls made and the clock in seconds. The \<open>n\<close>-th deploy raises
  the \<open>n\<close>-th message of \<open>script\<close> if there is one and succeeds otherwise, taking a minute;
  \<open>delete_engine\<close> raises unless \<open>delete_ok\<close>; \<open>get_job\<close> answers \<open>jobs t\<close> at time \<open>t\<close>;
  \<open>sleep\<close> advances the clock.
\<close>

definition mock_env :: "string option list \<Rightarrow> bool \<Rightarrow> (nat \<Rightarrow> pydict) \<Rightarrow> (nat \<times> nat) gae_env" where
  "mock_env script delete_ok jobs =
     \<lparr>connect = (\<lambda>w. (None, w)),
      gae_list_engines = Some (\<lambda>w. (Inr [], w)),
      gae_deploy_engine = (\<lambda>size_id type_id w.
         (case (if fst w < length script then script ! fst w else None) of
            Some msg \<Rightarrow> Inl (Exn OtherError msg)
          | None \<Rightarrow> Inr [(''id'', PStr ''engine123'')],
          (Suc (fst w), snd w + 60))),
      gae_current_engine_id = Some (\<lambda>w. PStr ''old-engine''),
      gae_delete_engine = (\<lambda>eid w.
         (if delete_ok then None else Some (Exn RuntimeError ''Failed to delete engine''), w)),
      gae_loaddata = (\<lambda>db vcs ecs g va w.
         (Inr [(''job_id'', PStr ''load123''), (''graph_id'', PStr ''graph123'')], w)),
      gae_run = (\<lambda>alg params w. (Inr [(''job_id'', PStr ''algo123'')], w)),
      gae_store_results = (\<lambda>t js as db w. (Inr [(''job_id'', PStr ''store123'')], w)),
      gae_get_job = (\<lambda>jid w. (Inr (jobs (snd w)), w)),
      gae_get_graph = (\<lambda>gid w. (Inr [(''vertex_count'', PInt 100), (''edge_count'', PInt 200)], w)),
      db_count = (\<lambda>t w. (Inr 100, w)),
      clock = (\<lambda>w. real (snd w)),
      sleep = (\<lambda>secs w. (fst w, snd w + nat secs))\<rparr>"

definition mock_config :: "string list \<Rightarrow> string \<Rightarrow> int \<Rightarrow> AnalysisConfig" where
  "mock_config vcs size_id retries =
     \<lparr>name = ''test_run'', description = [], vertex_collections = vcs,
      edge_collections = [''e1''], vertex_attributes = None, database = Some ''db'',
      algorithm = ''pagerank'',
      algorithm_params = [(''maximum_supersteps'', PInt 100)],
      result_field = Some ''pagerank_test_run'', engine_size = size_id, engine_type = ''gral'',
      target_collection = ''graph_analysis_results'', auto_cleanup = True,
      retry_on_failure = True, max_retries = retries, timeout_seconds = 3600,
      cfg_estimated_cost_usd = None\<rparr>"

definition succeeded_job :: "nat \<Rightarrow> pydict" where
  "succeeded_job t = [(''status'', PStr ''succeeded'')]"

definition mock_start :: "(nat \<times> nat) sys" where
  "mock_start = \<lparr>world = (0, 0), calls = []\<rparr>"


definition state_succeeded_job :: "nat \<Rightarrow> pydict" where
  "state_succeeded_job t = [(''state'', PStr ''succeeded'')]"


text \<open>
  The result record as it stands when the graph load of a first attempt raises, after a
  deploy that succeeded; and the same record once the handler has marked it failed.
\<close>

definition mock_loading_result :: AnalysisResult where
  "mock_loading_result =
     (new_result (mock_config [''v1''] ''e16'' 3) 0)
       \<lparr>status := GRAPH_LOADING, engine_id := PStr ''engine123''\<rparr>"

definition mock_failed_result :: AnalysisResult where
  "mock_failed_result =
     (new_result (mock_config [''v1''] ''e16'' 3) 0)
       \<lparr>status := FAILED, engine_id := PStr ''engine123''\<rparr>"

text \<open>
  The fields of a returned result that the statements below read, with the number of deploy
  calls and the caught messages of the history.
\<close>

definition run_summary ::
  "((exn + AnalysisResult) \<times> 'w sys) option \<Rightarrow>
     (AnalysisStatus \<times> int \<times> string option \<times> pyval \<times> real option \<times> real option
        \<times> nat \<times> string list) option" where
  "run_summary out =
     (case out of
        Some (Inr r, s) \<Rightarrow>
          Some (status r, retry_count r, error_message r, engine_id r, duration_seconds r,
                estimated_cost_usd r, deploy_count (calls s), caught_msgs (calls s))
      | _ \<Rightarrow> None)"

section \<open>Notions used by the statements\<close>

text \<open>The message of the guard of \<open>load_graph\<close> on the graph source.\<close>

definition graph_source_message :: string where
  "graph_source_message =
     ''Must specify either graph_name or both vertex_collections and edge_collections''"

text \<open>A stretch of history with no deploy call and no caught exception.\<close>

definition quiet :: "event list \<Rightarrow> bool" where
  "quiet evs = (deploy_count evs = 0 \<and> caught_msgs evs = [])"

definition quietly :: "'w sys \<Rightarrow> 'w sys \<Rightarrow> bool" where
  "quietly s s' = (\<exists>ext. calls s' = calls s @ ext \<and> quiet ext)"

text \<open>The bookkeeping fields that only the retry loop itself writes.\<close>

definition keeps :: "AnalysisResult \<Rightarrow> AnalysisResult \<Rightarrow> bool" where
  "keeps r r' =
     (config r' = config r \<and> error_message r' = error_message r \<and>
      retry_count r' = retry_count r \<and> estimated_cost_usd r' = estimated_cost_usd r \<and>
      start_time r' = start_time r)"

text \<open>
  What the retry loop, entered with counter \<open>a\<close> and record \<open>r\<close>, has done when it leaves
  with record \<open>r'\<close> after the events \<open>ext\<close>: \<open>D\<close> deploy calls, the caught messages \<open>F\<close>.
\<close>

definition loop_summary ::
  "AnalysisConfig \<Rightarrow> int \<Rightarrow> AnalysisResult \<Rightarrow> event list \<Rightarrow> AnalysisResult \<Rightarrow> bool" where
  "loop_summary cfg a r ext r' =
     (let F = caught_msgs ext; D = int (deploy_count ext) in
      config r' = config r \<and> start_time r' = start_time r \<and>
      1 \<le> D \<and> a + D \<le> max_attempts cfg \<and>
      (\<forall>m \<in> set (butlast F). is_retryable_error m) \<and>
      retry_count r' = (if a + D - 1 > 0 then a + D - 1 else retry_count r) \<and>
      (status r' = COMPLETED \<and> D = int (length F) + 1 \<and>
         (\<forall>m \<in> set F. is_retryable_error m) \<and>
         error_message r' = (if F = [] then error_message r else Some (last F)) \<and>
         (\<exists>d. duration_seconds r' = Some d \<and>
              estimated_cost_usd r' =
                (if hourly_rate (engine_size cfg) > 0
                 then Some (d / 60 / 60 * hourly_rate (engine_size cfg))
                 else estimated_cost_usd r))
       \<or> status r' = FAILED \<and> D = int (length F) \<and> F \<noteq> [] \<and>
         error_message r' = Some (last F) \<and>
         estimated_cost_usd r' = estimated_cost_usd r \<and>
         (is_retryable_error (last F) \<longrightarrow> a + D = max_attempts cfg)))"

section \<open>Histories and frames of the steps\<close>

lemma deploy_count_append [simp]: "deploy_count (xs @ ys) = deploy_count xs + deploy_count ys"
  by (simp add: deploy_count_def)

lemma caught_msgs_append [simp]: "caught_msgs (xs @ ys) = caught_msgs xs @ caught_msgs ys"
  by (induction xs rule: caught_msgs.induct) simp_all

lemma deploy_count_simps [simp]:
  "deploy_count [] = 0"
  "deploy_count (ev # evs) = (if is_deploy ev then 1 else 0) + deploy_count evs"
  by (simp_all add: deploy_count_def)

lemma quietly_refl [simp]: "quietly s s"
  by (simp add: quietly_def quiet_def)

lemma quietly_trans: "quietly s s1 \<Longrightarrow> quietly s1 s2 \<Longrightarrow> quietly s s2"
  by (auto simp: quietly_def quiet_def)

lemma keeps_refl [simp]: "keeps r r"
  by (simp add: keeps_def)

lemma keeps_trans: "keeps r r1 \<Longrightarrow> keeps r1 r2 \<Longrightarrow> keeps r r2"
  by (simp add: keeps_def)

lemma invoke_calls: "invoke f ev s = (a, s') \<Longrightarrow> calls s' = calls s @ [ev]"
  by (auto simp: invoke_def split: prod.splits)

lemma invoke_quietly:
  "invoke f (Call st c) s = (a, s') \<Longrightarrow> \<not> is_deploy (Call st c) \<Longrightarrow> quietly s s'"
  by (auto simp: quietly_def quiet_def dest!: invoke_calls)

lemma call_sleep_quietly: "quietly s (call_sleep env st n s)"
  by (simp add: quietly_def quiet_def call_sleep_def)

lemma poll_loop_quietly:
  assumes "poll_loop env st tmo jid d start s = Some out"
  shows "quietly s (snd out)"
proof (rule poll_loop.raw_induct
    [where P = "\<lambda>env st tmo jid d start s out. quietly s (snd out)", OF _ assms])
  fix f and env :: "'a gae_env" and st tmo jid d start s out
  assume IH: "\<And>env st tmo jid d start s out.
      f env st tmo jid d start s = Some out \<Longrightarrow> quietly s (snd out)"
    and body: "(case invoke (gae_get_job env jid) (Call st (GetJob jid)) s of
        (Inl e, s1) \<Rightarrow> Some (Inl e, s1)
      | (Inr job, s1) \<Rightarrow>
          (case inspect_job d job of
             JobDone \<Rightarrow> Some (Inr job, s1)
           | JobFailed e \<Rightarrow> Some (Inl e, s1)
           | JobPending \<Rightarrow>
               (case check_timeout d tmo (clock env (world s1) - start) of
                  None \<Rightarrow> f env st tmo jid d start (call_sleep env st DEFAULT_POLL_INTERVAL s1)
                | Some e \<Rightarrow> Some (Inl e, s1)))) = Some out"
  obtain a s1 where inv: "invoke (gae_get_job env jid) (Call st (GetJob jid)) s = (a, s1)"
    by (cases "invoke (gae_get_job env jid) (Call st (GetJob jid)) s")
  then have q: "quietly s s1" by (rule invoke_quietly) simp
  have q2: "quietly s (call_sleep env st DEFAULT_POLL_INTERVAL s1)"
    using q call_sleep_quietly by (rule quietly_trans)
  from body q q2 show "quietly s (snd out)"
    unfolding inv by (auto split: sum.splits poll.splits option.splits dest!: IH intro: quietly_trans)
qed


lemma wait_for_job_quietly:
  "wait_for_job env st tmo jid d s = Some (a, s') \<Longrightarrow> quietly s s'"
  unfolding wait_for_job_def by (drule poll_loop_quietly) simp


lemma deploy_engine_effect:
  assumes "deploy_engine env r s = (res, r1, s1)"
  shows "calls s1 = calls s @ [Call ENGINE_DEPLOYING
            (DeployEngine (engine_size (config r)) (engine_type (config r)))] \<and> keeps r r1"
  using assms
  by (auto simp: deploy_engine_def deploy_failed_def keeps_def Let_def
      split: prod.splits sum.splits option.splits if_splits dest!: invoke_calls)

lemma conn_load_graph_quietly:
  "conn_load_graph env st db vcs ecs g va s = (a, s1) \<Longrightarrow> quietly s s1"
  by (auto simp: conn_load_graph_def split: if_splits intro: invoke_quietly)

lemma load_graph_details_effect:
  assumes "load_graph_details env r s = (res, r1, s1)"
  shows "quietly s s1 \<and> keeps r r1"
  using assms
  by (auto simp: load_graph_details_def keeps_def Let_def
      split: prod.splits sum.splits option.splits intro: invoke_quietly)

lemma load_graph_effect:
  assumes "load_graph env r s = Some (res, r1, s1)"
  shows "quietly s s1 \<and> keeps r r1"
  using assms
  by (auto simp: load_graph_def Let_def keeps_def
      split: prod.splits sum.splits option.splits if_splits
      dest!: conn_load_graph_quietly wait_for_job_quietly load_graph_details_effect
      intro: quietly_trans)

lemma run_algorithm_effect:
  assumes "run_algorithm env r s = Some (res, r1, s1)"
  shows "quietly s s1 \<and> keeps r r1"
  using assms
  by (auto simp: run_algorithm_def Let_def keeps_def
      split: prod.splits sum.splits option.splits if_splits
      dest!: wait_for_job_quietly invoke_quietly intro: quietly_trans)

lemma count_documents_effect:
  assumes "count_documents env r s = (res, r1, s1)"
  shows "quietly s s1 \<and> keeps r r1 \<and> res = None"
  using assms
  by (auto simp: count_documents_def keeps_def Let_def
      split: prod.splits sum.splits option.splits intro: invoke_quietly)

lemma store_results_effect:
  assumes "store_results env r s = Some (res, r1, s1)"
  shows "quietly s s1 \<and> keeps r r1"
  using assms
  by (auto simp: store_results_def Let_def keeps_def
      split: prod.splits sum.splits option.splits if_splits
      dest!: wait_for_job_quietly count_documents_effect invoke_quietly
      intro: quietly_trans)


lemma execute_steps_effect:
  assumes "execute_steps env r s = Some (res, r1, s1)"
  shows "(\<exists>ext. calls s1 = calls s @ ext \<and> deploy_count ext = 1 \<and> caught_msgs ext = [])
         \<and> keeps r r1"
proof -
  obtain e0 ra sa where d: "deploy_engine env r s = (e0, ra, sa)"
    by (cases "deploy_engine env r s")
  note da = deploy_engine_effect [OF d]
  have base: "\<And>s'. quietly sa s' \<Longrightarrow>
      \<exists>ext. calls s' = calls s @ ext \<and> deploy_count ext = 1 \<and> caught_msgs ext = []"
    using da by (auto simp: quietly_def quiet_def)
  show ?thesis
  proof (cases e0)
    case (Some e)
    with assms d have "r1 = ra" "s1 = sa" by (simp_all add: execute_steps_def)
    with da base [of sa] show ?thesis by simp
  next
    case None
    show ?thesis
    proof (cases "load_graph env ra sa")
      case None
      with assms d \<open>e0 = None\<close> show ?thesis by (simp add: execute_steps_def)
    next
      case (Some lg)
      obtain e1 rb sb where lg: "lg = (e1, rb, sb)" by (cases lg)
      note lb = load_graph_effect [OF Some [unfolded lg]]
      show ?thesis
      proof (cases e1)
        case (Some e)
        with assms d \<open>e0 = None\<close> \<open>load_graph env ra sa = Some lg\<close> lg
        have "r1 = rb" "s1 = sb" by (simp_all add: execute_steps_def)
        with da lb base [of sb] show ?thesis by (auto intro: keeps_trans)
      next
        case None
        show ?thesis
        proof (cases "run_algorithm env rb sb")
          case None
          with assms d \<open>e0 = None\<close> \<open>load_graph env ra sa = Some lg\<close> lg \<open>e1 = None\<close>
          show ?thesis by (simp add: execute_steps_def)
        next
          case (Some ra2)
          obtain e2 rc sc where ra2: "ra2 = (e2, rc, sc)" by (cases ra2)
          note lc = run_algorithm_effect [OF Some [unfolded ra2]]
          have qc: "quietly sa sc" using lb lc by (auto intro: quietly_trans)
          have kc: "keeps r rc" using da lb lc by (auto intro: keeps_trans)
          show ?thesis
          proof (cases e2)
            case (Some e)
            with assms d \<open>e0 = None\<close> \<open>load_graph env ra sa = Some lg\<close> lg \<open>e1 = None\<close>
              \<open>run_algorithm env rb sb = Some ra2\<close> ra2
            have "r1 = rc" "s1 = sc" by (simp_all add: execute_steps_def)
            with kc base [OF qc] show ?thesis by simp
          next
            case None
            with assms d \<open>e0 = None\<close> \<open>load_graph env ra sa = Some lg\<close> lg \<open>e1 = None\<close>
              \<open>run_algorithm env rb sb = Some ra2\<close> ra2
            have "store_results env rc sc = Some (res, r1, s1)"
              by (simp add: execute_steps_def)
            note ld = store_results_effect [OF this]
            have "quietly sa s1" using qc ld by (auto intro: quietly_trans)
            moreover have "keeps r r1" using kc ld by (auto intro: keeps_trans)
            ultimately show ?thesis using base by simp
          qed
        qed
      qed
    qed
  qed
qed

lemma cleanup_engine_effect:
  assumes "cleanup_engine env r s = (res, r1, s1)"
  shows "calls s1 = calls s @ [Call CLEANING_UP (DeleteEngine (engine_id r))] \<and> keeps r r1
         \<and> engine_id r1 = engine_id r
         \<and> status r1 = (if status r = COMPLETED \<or> status r = FAILED then status r else CLEANING_UP)
         \<and> res = fst (gae_delete_engine env (engine_id r) (world s))"
  using assms
  by (auto simp: cleanup_engine_def keeps_def Let_def invoke_def split: prod.splits)

lemma rate_positive: "map_of ENGINE_COSTS sz = Some c \<Longrightarrow> 0 < c"
  by (auto simp: ENGINE_COSTS_def split: if_splits)

section \<open>One iteration of the retry loop\<close>

lemma cleanup_before_retry_effect:
  assumes "cleanup_before_retry env r s = (r1, s1)" and "status r = FAILED"
  shows "quietly s s1 \<and> keeps r r1 \<and> status r1 = FAILED"
proof (cases "truthy (engine_id r)")
  case False
  with assms show ?thesis by (simp add: cleanup_before_retry_def)
next
  case True
  obtain res ra sa where c: "cleanup_engine env r s = (res, ra, sa)"
    by (cases "cleanup_engine env r s")
  note ce = cleanup_engine_effect [OF c]
  from ce have q: "quietly s sa" by (simp add: quietly_def quiet_def)
  from assms True c have "s1 = sa" "r1 = ra \<or> r1 = ra\<lparr>engine_id := PNone\<rparr>"
    by (auto simp: cleanup_before_retry_def split: option.splits)
  with ce q assms(2) show ?thesis by (auto simp: keeps_def)
qed

lemma on_exception_Break:
  assumes "on_exception env cfg a e r s = Break r' s'"
  shows "calls s' = calls s @ [Caught (exn_str e)] \<and> status r' = FAILED
         \<and> error_message r' = Some (exn_str e) \<and> config r' = config r
         \<and> retry_count r' = retry_count r \<and> estimated_cost_usd r' = estimated_cost_usd r
         \<and> start_time r' = start_time r \<and> engine_id r' = engine_id r
         \<and> (is_retryable_error (exn_str e) \<longrightarrow> \<not> (retry_on_failure cfg \<and> a < max_retries cfg))"
  using assms
  by (auto simp: on_exception_def Let_def mark_failed_def record_event_def
      split: if_splits prod.splits)

lemma on_exception_Retry:
  assumes "on_exception env cfg a e r s = Retry r' s'"
  shows "(\<exists>ext. calls s' = calls s @ Caught (exn_str e) # ext \<and> quiet ext) \<and> status r' = FAILED
         \<and> error_message r' = Some (exn_str e) \<and> config r' = config r
         \<and> retry_count r' = retry_count r \<and> estimated_cost_usd r' = estimated_cost_usd r
         \<and> start_time r' = start_time r
         \<and> is_retryable_error (exn_str e) \<and> retry_on_failure cfg \<and> a < max_retries cfg"
proof -
  let ?r1 = "mark_failed env e r s" and ?s1 = "record_event (Caught (exn_str e)) s"
  from assms have cond: "is_retryable_error (exn_str e)" "retry_on_failure cfg" "a < max_retries cfg"
    and c: "cleanup_before_retry env ?r1 ?s1 = (r', s')"
    by (auto simp: on_exception_def Let_def split: if_splits prod.splits)
  have "status ?r1 = FAILED" by (simp add: mark_failed_def Let_def)
  note ce = cleanup_before_retry_effect [OF c this]
  from ce cond show ?thesis
    by (auto simp: keeps_def quietly_def mark_failed_def Let_def record_event_def)
qed


lemma iteration_Break:
  assumes "iteration env cfg a r s = Some (Break r' s')"
  shows "\<exists>ext. calls s' = calls s @ ext \<and> deploy_count ext = 1 \<and> config r' = config r
           \<and> start_time r' = start_time r
           \<and> retry_count r' = (if a > 0 then a else retry_count r)
           \<and> ((status r' = COMPLETED \<and> caught_msgs ext = []
                 \<and> error_message r' = error_message r
                 \<and> (\<exists>d. duration_seconds r' = Some d
                       \<and> estimated_cost_usd r' =
                           (if hourly_rate (engine_size cfg) > 0
                            then Some (d / 60 / 60 * hourly_rate (engine_size cfg))
                            else estimated_cost_usd r)))
               \<or> (\<exists>m. status r' = FAILED \<and> caught_msgs ext = [m]
                     \<and> error_message r' = Some m
                     \<and> estimated_cost_usd r' = estimated_cost_usd r
                     \<and> (is_retryable_error m \<longrightarrow> \<not> (retry_on_failure cfg \<and> a < max_retries cfg))))"
proof -
  let ?r0 = "if a > 0 then r\<lparr>retry_count := a\<rparr> else r"
  from assms obtain res r1 s1 where ex: "execute_steps env ?r0 s = Some (res, r1, s1)"
    by (auto simp: iteration_def split: option.splits)
  from execute_steps_effect [OF ex] obtain ext where
    ext: "calls s1 = calls s @ ext" "deploy_count ext = 1" "caught_msgs ext = []"
    and k: "keeps ?r0 r1" by blast
  show ?thesis
  proof (cases res)
    case None
    with assms ex have "r' = mark_completed env cfg r1 s1" "s' = s1"
      by (auto simp: iteration_def)
    with ext k show ?thesis
      by (auto simp: mark_completed_def Let_def keeps_def split: if_splits)
  next
    case (Some e)
    with assms ex have "on_exception env cfg a e r1 s1 = Break r' s'"
      by (simp add: iteration_def)
    note ob = on_exception_Break [OF this]
    show ?thesis
      apply (rule exI [of _ "ext @ [Caught (exn_str e)]"])
      using ob ext k by (auto simp: keeps_def split: if_splits)
  qed
qed

lemma iteration_Retry:
  assumes "iteration env cfg a r s = Some (Retry r' s')"
  shows "\<exists>ext m. calls s' = calls s @ ext \<and> deploy_count ext = 1 \<and> caught_msgs ext = [m]
           \<and> is_retryable_error m \<and> retry_on_failure cfg \<and> a < max_retries cfg
           \<and> status r' = FAILED \<and> error_message r' = Some m
           \<and> retry_count r' = (if a > 0 then a else retry_count r)
           \<and> config r' = config r \<and> estimated_cost_usd r' = estimated_cost_usd r
           \<and> start_time r' = start_time r"
proof -
  let ?r0 = "if a > 0 then r\<lparr>retry_count := a\<rparr> else r"
  from assms obtain res r1 s1 where ex: "execute_steps env ?r0 s = Some (res, r1, s1)"
    by (auto simp: iteration_def split: option.splits)
  from execute_steps_effect [OF ex] obtain ext where
    ext: "calls s1 = calls s @ ext" "deploy_count ext = 1" "caught_msgs ext = []"
    and k: "keeps ?r0 r1" by blast
  from assms ex obtain e where "res = Some e" and "on_exception env cfg a e r1 s1 = Retry r' s'"
    by (cases res) (auto simp: iteration_def)
  note orr = on_exception_Retry [OF this(2)]
  then obtain ext2 where ext2: "calls s' = calls s1 @ Caught (exn_str e) # ext2" "quiet ext2"
    by blast
  show ?thesis
    apply (rule exI [of _ "ext @ Caught (exn_str e) # ext2"])
    apply (rule exI [of _ "exn_str e"])
    using orr ext ext2 k by (auto simp: keeps_def quiet_def split: if_splits)
qed

section \<open>The retry loop as a whole\<close>

lemma retry_loop_summary:
  assumes "retry_loop env cfg a r s = Some (r', s')" and "a < max_attempts cfg" and "0 \<le> a"
  shows "\<exists>ext. calls s' = calls s @ ext \<and> loop_summary cfg a r ext r'"
  using assms
proof (induction env cfg a r s rule: retry_loop.induct)
  case (1 env cfg a r s)
  from "1.prems" obtain nx where it: "iteration env cfg a r s = Some nx"
    by (simp add: retry_loop.simps split: option.splits)
  show ?case
  proof (cases nx)
    case (Break r1 s1)
    with "1.prems" it have eq: "r' = r1" "s' = s1" by (simp_all add: retry_loop.simps)
    from iteration_Break [OF it [unfolded Break]] obtain ext where
      ext: "calls s1 = calls s @ ext" "deploy_count ext = 1" "config r1 = config r"
        "start_time r1 = start_time r" "retry_count r1 = (if a > 0 then a else retry_count r)"
      and alt: "(status r1 = COMPLETED \<and> caught_msgs ext = []
                 \<and> error_message r1 = error_message r
                 \<and> (\<exists>d. duration_seconds r1 = Some d
                       \<and> estimated_cost_usd r1 =
                           (if hourly_rate (engine_size cfg) > 0
                            then Some (d / 60 / 60 * hourly_rate (engine_size cfg))
                            else estimated_cost_usd r)))
               \<or> (\<exists>m. status r1 = FAILED \<and> caught_msgs ext = [m]
                     \<and> error_message r1 = Some m
                     \<and> estimated_cost_usd r1 = estimated_cost_usd r
                     \<and> (is_retryable_error m \<longrightarrow> \<not> (retry_on_failure cfg \<and> a < max_retries cfg)))"
      by blast
    have "loop_summary cfg a r ext r1"
      using ext alt "1.prems"(2,3)
      by (auto simp: loop_summary_def Let_def max_attempts_def split: if_splits)
    with ext(1) eq show ?thesis by blast
  next
    case (Retry r1 s1)
    with "1.prems" it have rec: "retry_loop env cfg (a + 1) r1 s1 = Some (r', s')"
      by (simp add: retry_loop.simps)
    from iteration_Retry [OF it [unfolded Retry]] obtain ext1 m where
      e1: "calls s1 = calls s @ ext1" "deploy_count ext1 = 1" "caught_msgs ext1 = [m]"
        "is_retryable_error m" "retry_on_failure cfg" "a < max_retries cfg"
        "status r1 = FAILED" "error_message r1 = Some m"
        "retry_count r1 = (if a > 0 then a else retry_count r)"
        "config r1 = config r" "estimated_cost_usd r1 = estimated_cost_usd r"
        "start_time r1 = start_time r"
      by blast
    from e1(5,6) have lt: "a + 1 < max_attempts cfg" by (simp add: max_attempts_def)
    from "1.IH" [OF "1.prems"(2) it Retry rec lt] "1.prems"(3)
    obtain ext2 where e2: "calls s' = calls s1 @ ext2" "loop_summary cfg (a + 1) r1 ext2 r'"
      by auto
    have bl: "butlast (m # caught_msgs ext2) =
        (if caught_msgs ext2 = [] then [] else m # butlast (caught_msgs ext2))"
      by simp
    have "loop_summary cfg a r (ext1 @ ext2) r'"
      using e2(2) e1 "1.prems"(3)
      unfolding loop_summary_def Let_def
      by (auto simp: bl simp del: butlast.simps split: if_splits)
    moreover have "calls s' = calls s @ ext1 @ ext2" using e1(1) e2(1) by simp
    ultimately show ?thesis by blast
  qed
qed









section \<open>A whole run\<close>

lemma initialize_connections_quietly:
  "initialize_connections env s = (res, s1) \<Longrightarrow> quietly s s1"
  unfolding initialize_connections_def by (erule invoke_quietly) simp

lemma existing_engines_handler_state:
  "existing_engines_handler e s = (res, s1) \<Longrightarrow> s1 = s"
  by (auto simp: existing_engines_handler_def split: if_splits)

lemma check_existing_engines_quietly:
  "check_existing_engines env s = (res, s1) \<Longrightarrow> quietly s s1"
  by (auto simp: check_existing_engines_def
      split: option.splits prod.splits sum.splits if_splits
      dest!: existing_engines_handler_state invoke_quietly)

lemma cleanup_engine_terminal:
  assumes "cleanup_engine env r s = (res, r1, s1)" and "status r = COMPLETED \<or> status r = FAILED"
  shows "r1 = r"
  using assms by (auto simp: cleanup_engine_def Let_def split: prod.splits)

lemma final_cleanup_effect:
  assumes "final_cleanup env cfg r s = (r1, s1)"
    and "status r = COMPLETED \<or> status r = FAILED \<or> \<not> truthy (engine_id r)"
  shows "r1 = r \<and>
         calls s1 = calls s @ (if truthy (engine_id r) \<and> auto_cleanup cfg
                               then [Call CLEANING_UP (DeleteEngine (engine_id r))] else [])"
proof (cases "truthy (engine_id r) \<and> auto_cleanup cfg")
  case False
  with assms show ?thesis by (auto simp: final_cleanup_def split: if_splits)
next
  case True
  obtain res ra sa where c: "cleanup_engine env r s = (res, ra, sa)"
    by (cases "cleanup_engine env r s")
  from assms(2) True have "status r = COMPLETED \<or> status r = FAILED" by auto
  from cleanup_engine_terminal [OF c this] cleanup_engine_effect [OF c] assms(1) True c
  show ?thesis by (simp add: final_cleanup_def)
qed

lemma run_analysis_Inl:
  assumes "run_analysis env cfg s = Some (Inl e, s')"
  shows "fst (initialize_connections env s) = Some e
         \<or> fst (check_existing_engines env (snd (initialize_connections env s))) = Some e"
  using assms
  by (auto simp: run_analysis_def Let_def split: prod.splits option.splits)

lemma run_analysis_Inr:
  assumes "run_analysis env cfg s = Some (Inr r, s')"
  shows "\<exists>pre ext.
           calls s' = calls s @ pre @ ext @
             (if truthy (engine_id r) \<and> auto_cleanup cfg
              then [Call CLEANING_UP (DeleteEngine (engine_id r))] else [])
           \<and> quiet pre
           \<and> (if 0 < max_attempts cfg
               then loop_summary cfg 0 (new_result cfg (clock env (world s))) ext r
               else ext = [] \<and> r = new_result cfg (clock env (world s)))"
proof -
  let ?r0 = "new_result cfg (clock env (world s))"
  from assms obtain s1 s2 r1 s3 where
    i: "initialize_connections env s = (None, s1)"
    and c: "check_existing_engines env s1 = (None, s2)"
    and l: "retry_loop env cfg 0 ?r0 s2 = Some (r1, s3)"
    and f: "final_cleanup env cfg r1 s3 = (r, s')"
    by (auto simp: run_analysis_def Let_def split: prod.splits option.splits)
  from initialize_connections_quietly [OF i] check_existing_engines_quietly [OF c]
  have "quietly s s2" by (rule quietly_trans)
  then obtain pre where pre: "calls s2 = calls s @ pre" "quiet pre"
    by (auto simp: quietly_def)
  show ?thesis
  proof (cases "0 < max_attempts cfg")
    case True
    from retry_loop_summary [OF l True] obtain ext where
      ext: "calls s3 = calls s2 @ ext" "loop_summary cfg 0 ?r0 ext r1" by auto
    then have "status r1 = COMPLETED \<or> status r1 = FAILED"
      by (auto simp: loop_summary_def Let_def)
    then have "status r1 = COMPLETED \<or> status r1 = FAILED \<or> \<not> truthy (engine_id r1)" by blast
    from final_cleanup_effect [OF f this] pre ext True show ?thesis by auto
  next
    case False
    with l have eq: "r1 = ?r0" "s3 = s2" by (simp_all add: retry_loop.simps)
    then have "\<not> truthy (engine_id r1)" by (simp add: new_result_def)
    then have "status r1 = COMPLETED \<or> status r1 = FAILED \<or> \<not> truthy (engine_id r1)" by blast
    from final_cleanup_effect [OF f this] pre eq False show ?thesis by auto
  qed
qed



section \<open>Consequences of the loop summary\<close>

lemma quiet_parts [simp]:
  "quiet pre \<Longrightarrow> deploy_count pre = 0"
  "quiet pre \<Longrightarrow> caught_msgs pre = []"
  by (simp_all add: quiet_def)

lemma loop_summary_bounds:
  assumes "loop_summary cfg a r ext r'"
  shows "1 \<le> int (deploy_count ext)"
    and "a + int (deploy_count ext) \<le> max_attempts cfg"
    and "\<forall>m \<in> set (butlast (caught_msgs ext)). is_retryable_error m"
    and "status r' = COMPLETED \<or> status r' = FAILED"
    and "retry_count r' = (if a + int (deploy_count ext) - 1 > 0
                           then a + int (deploy_count ext) - 1 else retry_count r)"
  using assms unfolding loop_summary_def Let_def by blast+

lemma loop_summary_completed:
  assumes "loop_summary cfg a r ext r'" and "status r' = COMPLETED"
  shows "int (deploy_count ext) = int (length (caught_msgs ext)) + 1"
    and "\<forall>m \<in> set (caught_msgs ext). is_retryable_error m"
    and "error_message r' =
           (if caught_msgs ext = [] then error_message r else Some (last (caught_msgs ext)))"
    and "\<exists>d. duration_seconds r' = Some d \<and>
              estimated_cost_usd r' =
                (if hourly_rate (engine_size cfg) > 0
                 then Some (d / 60 / 60 * hourly_rate (engine_size cfg))
                 else estimated_cost_usd r)"
proof -
  from assms have
    "int (deploy_count ext) = int (length (caught_msgs ext)) + 1 \<and>
         (\<forall>m \<in> set (caught_msgs ext). is_retryable_error m) \<and>
         error_message r' =
           (if caught_msgs ext = [] then error_message r else Some (last (caught_msgs ext))) \<and>
         (\<exists>d. duration_seconds r' = Some d \<and>
              estimated_cost_usd r' =
                (if hourly_rate (engine_size cfg) > 0
                 then Some (d / 60 / 60 * hourly_rate (engine_size cfg))
                 else estimated_cost_usd r))"
    unfolding loop_summary_def Let_def by simp
  then show "int (deploy_count ext) = int (length (caught_msgs ext)) + 1"
    and "\<forall>m \<in> set (caught_msgs ext). is_retryable_error m"
    and "error_message r' =
           (if caught_msgs ext = [] then error_message r else Some (last (caught_msgs ext)))"
    and "\<exists>d. duration_seconds r' = Some d \<and>
              estimated_cost_usd r' =
                (if hourly_rate (engine_size cfg) > 0
                 then Some (d / 60 / 60 * hourly_rate (engine_size cfg))
                 else estimated_cost_usd r)"
    by blast+
qed

lemma loop_summary_failed:
  assumes "loop_summary cfg a r ext r'" and "status r' \<noteq> COMPLETED"
  shows "status r' = FAILED"
    and "int (deploy_count ext) = int (length (caught_msgs ext))"
    and "caught_msgs ext \<noteq> []"
    and "error_message r' = Some (last (caught_msgs ext))"
    and "estimated_cost_usd r' = estimated_cost_usd r"
    and "is_retryable_error (last (caught_msgs ext)) \<longrightarrow>
           a + int (deploy_count ext) = max_attempts cfg"
  using assms unfolding loop_summary_def Let_def by blast+

lemma new_result_fields [simp]:
  "status (new_result cfg t) = PENDING"
  "error_message (new_result cfg t) = None"
  "retry_count (new_result cfg t) = 0"
  "estimated_cost_usd (new_result cfg t) = None"
  "engine_id (new_result cfg t) = PNone"
  "config (new_result cfg t) = cfg"
  by (simp_all add: new_result_def)

lemma run_analysis_history:
  assumes "run_analysis env cfg s = Some (Inr r, s')"
  shows "\<exists>ext lp. calls s' = calls s @ ext
           \<and> deploy_count ext = deploy_count lp \<and> caught_msgs ext = caught_msgs lp
           \<and> (if 0 < max_attempts cfg
               then loop_summary cfg 0 (new_result cfg (clock env (world s))) lp r
               else lp = [] \<and> r = new_result cfg (clock env (world s)))"
proof -
  from run_analysis_Inr [OF assms] obtain pre ext where
    c: "calls s' = calls s @ pre @ ext @
             (if truthy (engine_id r) \<and> auto_cleanup cfg
              then [Call CLEANING_UP (DeleteEngine (engine_id r))] else [])"
    and q: "quiet pre"
    and l: "if 0 < max_attempts cfg
               then loop_summary cfg 0 (new_result cfg (clock env (world s))) ext r
               else ext = [] \<and> r = new_result cfg (clock env (world s))"
    by blast
  let ?all = "pre @ ext @ (if truthy (engine_id r) \<and> auto_cleanup cfg
              then [Call CLEANING_UP (DeleteEngine (engine_id r))] else [])"
  have "caught_msgs ?all = caught_msgs ext" "deploy_count ?all = deploy_count ext"
    using q by simp_all
  with c l show ?thesis by (intro exI [of _ ?all] exI [of _ ext]) simp
qed

lemma hourly_rate_lookup:
  "(if hourly_rate sz > 0 then Some (d / 60 / 60 * hourly_rate sz) else None)
     = (case map_of ENGINE_COSTS sz of Some rate \<Rightarrow> Some (d / 60 / 60 * rate) | None \<Rightarrow> None)"
  by (auto simp: hourly_rate_def dest: rate_positive split: option.splits)

section \<open>The classifier's substring test\<close>

lemma starts_with_iff: "starts_with p s \<longleftrightarrow> (\<exists>v. s = p @ v)"
  by (induction p s rule: starts_with.induct) auto

lemma str_in_iff: "str_in p s \<longleftrightarrow> (\<exists>u v. s = u @ p @ v)"
proof (induction s)
  case Nil
  then show ?case by auto
next
  case (Cons c cs)
  show ?case
  proof
    assume "str_in p (c # cs)"
    then consider "starts_with p (c # cs)" | "str_in p cs" by auto
    then show "\<exists>u v. c # cs = u @ p @ v"
    proof cases
      case 1
      then obtain v where "c # cs = [] @ p @ v" by (auto simp: starts_with_iff)
      then show ?thesis by blast
    next
      case 2
      with Cons obtain u v where "cs = u @ p @ v" by auto
      then have "c # cs = (c # u) @ p @ v" by simp
      then show ?thesis by blast
    qed
  next
    assume "\<exists>u v. c # cs = u @ p @ v"
    then obtain u v where uv: "c # cs = u @ p @ v" by blast
    show "str_in p (c # cs)"
    proof (cases u)
      case Nil
      with uv have "starts_with p (c # cs)" by (auto simp: starts_with_iff)
      then show ?thesis by simp
    next
      case (Cons a u')
      with uv have "cs = u' @ p @ v" by simp
      with Cons.IH have "str_in p cs" by blast
      then show ?thesis by simp
    qed
  qed
qed

lemma scan_patterns_iff:
  "scan_patterns el ps \<longleftrightarrow> \<not> (\<exists>p \<in> set ps. str_in (lower p) el)"
  by (induction ps) auto

lemma is_retryable_error_iff:
  "is_retryable_error msg \<longleftrightarrow>
     \<not> (\<exists>p \<in> set NON_RETRYABLE_ERRORS. \<exists>u v. lower msg = u @ lower p @ v)"
  by (simp add: is_retryable_error_def scan_patterns_iff str_in_iff)

section \<open>A configuration without a graph source\<close>

lemma graph_source_message_retryable: "is_retryable_error graph_source_message"
  unfolding graph_source_message_def by code_simp

lemma load_graph_invalid:
  assumes "\<not> (vertex_collections (config r) \<noteq> [] \<and> edge_collections (config r) \<noteq> [])"
  shows "load_graph env r s = Some (Some (Exn ValueError graph_source_message),
           r\<lparr>status := GRAPH_LOADING\<rparr>, s)"
  using assms
  by (auto simp: load_graph_def conn_load_graph_def opt_truthy_def Let_def
      graph_source_message_def)

lemma execute_steps_invalid:
  assumes "\<not> (vertex_collections (config r) \<noteq> [] \<and> edge_collections (config r) \<noteq> [])"
  shows "\<exists>e r1 s1. execute_steps env r s = Some (Some e, r1, s1)
           \<and> calls s1 = calls s @ [Call ENGINE_DEPLOYING
                (DeployEngine (engine_size (config r)) (engine_type (config r)))]
           \<and> config r1 = config r"
proof -
  obtain e0 ra sa where d: "deploy_engine env r s = (e0, ra, sa)"
    by (cases "deploy_engine env r s")
  from deploy_engine_effect [OF d] have
    c: "calls sa = calls s @ [Call ENGINE_DEPLOYING
            (DeployEngine (engine_size (config r)) (engine_type (config r)))]"
    and k: "config ra = config r" by (simp_all add: keeps_def)
  show ?thesis
  proof (cases e0)
    case (Some e)
    with d c k show ?thesis by (simp add: execute_steps_def)
  next
    case None
    from assms k have "\<not> (vertex_collections (config ra) \<noteq> [] \<and> edge_collections (config ra) \<noteq> [])"
      by simp
    from load_graph_invalid [OF this, of env sa] None d c k show ?thesis
      by (simp add: execute_steps_def)
  qed
qed

lemma execute_steps_guard:
  assumes "\<not> (vertex_collections (config r) \<noteq> [] \<and> edge_collections (config r) \<noteq> [])"
    and "fst (deploy_engine env r s) = None"
    and "execute_steps env r s = Some (Some e, r1, s1)"
  shows "e = Exn ValueError graph_source_message"
proof -
  from assms(2) obtain ra sa where d: "deploy_engine env r s = (None, ra, sa)"
    by (cases "deploy_engine env r s") auto
  from deploy_engine_effect [OF d] have k: "config ra = config r" by (simp add: keeps_def)
  with assms(1) have "\<not> (vertex_collections (config ra) \<noteq> [] \<and> edge_collections (config ra) \<noteq> [])"
    by simp
  from load_graph_invalid [OF this, of env sa] d assms(3) show ?thesis
    by (simp add: execute_steps_def)
qed

lemma on_exception_calls:
  "\<exists>r' s' ext. (on_exception env cfg a e r s = Break r' s' \<or> on_exception env cfg a e r s = Retry r' s')
      \<and> calls s' = calls s @ Caught (exn_str e) # ext
      \<and> (ext = [] \<or> ext = [Call CLEANING_UP (DeleteEngine (engine_id r))])
      \<and> config r' = config r"
proof (cases "on_exception env cfg a e r s")
  case (Break r' s')
  from on_exception_Break [OF this] Break show ?thesis by auto
next
  case (Retry r' s')
  let ?r1 = "mark_failed env e r s" and ?s1 = "record_event (Caught (exn_str e)) s"
  from Retry have c: "cleanup_before_retry env ?r1 ?s1 = (r', s')"
    by (auto simp: on_exception_def Let_def split: if_splits prod.splits)
  have e1: "engine_id ?r1 = engine_id r" "config ?r1 = config r"
    by (simp_all add: mark_failed_def Let_def)
  have s1: "calls ?s1 = calls s @ [Caught (exn_str e)]" by (simp add: record_event_def)
  show ?thesis
  proof (cases "truthy (engine_id ?r1)")
    case False
    with c have "r' = ?r1" "s' = ?s1" by (simp_all add: cleanup_before_retry_def)
    with Retry e1 s1 show ?thesis by auto
  next
    case True
    obtain res ra sa where ce: "cleanup_engine env ?r1 ?s1 = (res, ra, sa)"
      by (cases "cleanup_engine env ?r1 ?s1")
    from cleanup_engine_effect [OF ce] have
      ca: "calls sa = calls ?s1 @ [Call CLEANING_UP (DeleteEngine (engine_id ?r1))]"
      and ka: "config ra = config ?r1" by (simp_all add: keeps_def)
    from c True ce have "s' = sa" "config r' = config ra"
      by (auto simp: cleanup_before_retry_def split: option.splits)
    with Retry ca ka e1 s1 show ?thesis by auto
  qed
qed

lemma iteration_invalid:
  assumes "\<not> (vertex_collections (config r) \<noteq> [] \<and> edge_collections (config r) \<noteq> [])"
  shows "\<exists>r' s' ext. (iteration env cfg a r s = Some (Break r' s')
                       \<or> iteration env cfg a r s = Some (Retry r' s'))
      \<and> calls s' = calls s @ ext \<and> filter is_loaddata ext = []
      \<and> deploy_count ext = length (caught_msgs ext) \<and> config r' = config r
      \<and> ((\<forall>r0 s0. fst (deploy_engine env r0 s0) = None) \<longrightarrow>
           (\<forall>m \<in> set (caught_msgs ext). m = graph_source_message))"
proof -
  let ?r0 = "if a > 0 then r\<lparr>retry_count := a\<rparr> else r"
  from assms have inv0:
    "\<not> (vertex_collections (config ?r0) \<noteq> [] \<and> edge_collections (config ?r0) \<noteq> [])"
    by simp
  from execute_steps_invalid [OF inv0, of env s] obtain e r1 s1 where
    ex: "execute_steps env ?r0 s = Some (Some e, r1, s1)"
    and c1: "calls s1 = calls s @ [Call ENGINE_DEPLOYING
                (DeployEngine (engine_size (config ?r0)) (engine_type (config ?r0)))]"
    and k1: "config r1 = config ?r0" by blast
  from execute_steps_guard [OF inv0 _ ex]
  have g: "fst (deploy_engine env ?r0 s) = None \<longrightarrow> e = Exn ValueError graph_source_message"
    by blast
  from ex have it: "iteration env cfg a r s = Some (on_exception env cfg a e r1 s1)"
    by (simp add: iteration_def)
  from on_exception_calls [of env cfg a e r1 s1] obtain r' s' ext where
    oe: "on_exception env cfg a e r1 s1 = Break r' s' \<or> on_exception env cfg a e r1 s1 = Retry r' s'"
    and c2: "calls s' = calls s1 @ Caught (exn_str e) # ext"
    and ee: "ext = [] \<or> ext = [Call CLEANING_UP (DeleteEngine (engine_id r1))]"
    and k2: "config r' = config r1" by blast
  let ?ext = "Call ENGINE_DEPLOYING
                (DeployEngine (engine_size (config ?r0)) (engine_type (config ?r0)))
              # Caught (exn_str e) # ext"
  have f1: "calls s' = calls s @ ?ext" using c1 c2 by simp
  have f2: "filter is_loaddata ?ext = []" using ee by auto
  have f3: "deploy_count ?ext = length (caught_msgs ?ext)" using ee by auto
  have f4: "config r' = config r" using k1 k2 by simp
  have f5: "iteration env cfg a r s = Some (Break r' s')
              \<or> iteration env cfg a r s = Some (Retry r' s')" using it oe by auto
  have cm: "caught_msgs ?ext = [exn_str e]" using ee by auto
  have f6: "(\<forall>r0 s0. fst (deploy_engine env r0 s0) = None) \<longrightarrow>
           (\<forall>m \<in> set (caught_msgs ?ext). m = graph_source_message)"
  proof
    assume "\<forall>r0 s0. fst (deploy_engine env r0 s0) = None"
    then have "fst (deploy_engine env ?r0 s) = None" by blast
    with g have "exn_str e = graph_source_message" by simp
    then show "\<forall>m \<in> set (caught_msgs ?ext). m = graph_source_message"
      unfolding cm by simp
  qed
  show ?thesis
    apply (rule exI [of _ r'], rule exI [of _ s'], rule exI [of _ ?ext])
    using f1 f2 f3 f4 f5 f6 by blast
qed

lemma retry_loop_invalid:
  "\<not> (vertex_collections (config r) \<noteq> [] \<and> edge_collections (config r) \<noteq> []) \<Longrightarrow>
   \<exists>r' s' ext. retry_loop env cfg a r s = Some (r', s') \<and> calls s' = calls s @ ext
      \<and> filter is_loaddata ext = [] \<and> deploy_count ext = length (caught_msgs ext)
      \<and> ((\<forall>r0 s0. fst (deploy_engine env r0 s0) = None) \<longrightarrow>
           (\<forall>m \<in> set (caught_msgs ext). m = graph_source_message))"
proof (induction env cfg a r s rule: retry_loop.induct)
  case (1 env cfg a r s)
  show ?case
  proof (cases "a < max_attempts cfg")
    case False
    then show ?thesis by (simp add: retry_loop.simps)
  next
    case True
    from iteration_invalid [OF "1.prems", of env cfg a s] obtain r1 s1 ext1 where
      it: "iteration env cfg a r s = Some (Break r1 s1) \<or> iteration env cfg a r s = Some (Retry r1 s1)"
      and c1: "calls s1 = calls s @ ext1" "filter is_loaddata ext1 = []"
        "deploy_count ext1 = length (caught_msgs ext1)"
      and k: "config r1 = config r"
      and g1: "(\<forall>r0 s0. fst (deploy_engine env r0 s0) = None) \<longrightarrow>
           (\<forall>m \<in> set (caught_msgs ext1). m = graph_source_message)" by blast
    from it show ?thesis
    proof
      assume "iteration env cfg a r s = Some (Break r1 s1)"
      with True c1 g1 show ?thesis by (simp add: retry_loop.simps)
    next
      assume rt: "iteration env cfg a r s = Some (Retry r1 s1)"
      from "1.prems" k have
        "\<not> (vertex_collections (config r1) \<noteq> [] \<and> edge_collections (config r1) \<noteq> [])" by simp
      from "1.IH" [OF True rt refl this] obtain r' s' ext2 where
        l2: "retry_loop env cfg (a + 1) r1 s1 = Some (r', s')" "calls s' = calls s1 @ ext2"
        "filter is_loaddata ext2 = []" "deploy_count ext2 = length (caught_msgs ext2)"
        and g2: "(\<forall>r0 s0. fst (deploy_engine env r0 s0) = None) \<longrightarrow>
           (\<forall>m \<in> set (caught_msgs ext2). m = graph_source_message)"
        by blast
      from g1 g2 have g: "(\<forall>r0 s0. fst (deploy_engine env r0 s0) = None) \<longrightarrow>
           (\<forall>m \<in> set (caught_msgs (ext1 @ ext2)). m = graph_source_message)"
        by auto
      from True rt c1 l2 have "retry_loop env cfg a r s = Some (r', s')
          \<and> calls s' = calls s @ (ext1 @ ext2)
          \<and> filter is_loaddata (ext1 @ ext2) = []
          \<and> deploy_count (ext1 @ ext2) = length (caught_msgs (ext1 @ ext2))"
        by (simp add: retry_loop.simps)
      with g show ?thesis by blast
    qed
  qed
qed

lemma mock_deploys_succeed:
  "fst (deploy_engine (mock_env [] ok jobs) r0 s0) = None"
  by (simp add: deploy_engine_def mock_env_def invoke_def Let_def)

section \<open>Job records of the state shape\<close>

lemma inspect_job_state_shape:
  assumes "\<not> (has_key job ''progress'' \<and> has_key job ''total'')" and "\<not> has_key job ''status''"
    and "map_of job ''state'' = Some v"
  shows "inspect_job descr job =
     (if v \<in> {PStr ''done'', PStr ''finished'', PStr ''completed''} then JobDone
      else if v \<in> {PStr ''failed'', PStr ''error''} then
        JobFailed (Exn RuntimeError (descr @ '' failed: ''
           @ py_str (dict_get_default job ''error'' (PStr ''Unknown error''))))
      else JobPending)"
proof -
  from assms(3) have hs: "has_key job ''state''" "dict_get job ''state'' = v"
    by (simp_all add: has_key_def dict_get_def)
  from assms(1) have np: "(has_key job ''progress'' \<and> has_key job ''total'') = False" by simp
  from assms(2) have ns: "has_key job ''status'' = False" by simp
  show ?thesis unfolding inspect_job_def by (simp add: np ns hs)
qed

lemma conn_inspect_job_state_shape:
  assumes "\<not> (has_key job ''progress'' \<and> has_key job ''total'')" and "\<not> has_key job ''status''"
    and "map_of job ''state'' = Some v"
  shows "conn_inspect_job jid job =
     (if v \<in> {PStr ''done'', PStr ''finished'', PStr ''completed'', PStr ''succeeded''} then JobDone
      else if v \<in> {PStr ''failed'', PStr ''error''} then
        JobFailed (Exn RuntimeError (''Job '' @ jid @ '' failed: ''
           @ py_str (dict_get_default job ''error'' (PStr ''Unknown error''))))
      else JobPending)"
proof -
  from assms(2) have st: "dict_get_default job ''status'' (PDict []) = PDict []"
    by (simp add: has_key_def dict_get_default_def)
  from assms(3) have sv: "dict_get_default job ''state'' (PStr ''unknown'') = v"
    by (simp add: dict_get_default_def)
  have e: "dict_get_default [] ''state'' v = v"
    "dict_get_default [] ''error'' (dict_get_default job ''error'' (PStr ''Unknown error''))
       = dict_get_default job ''error'' (PStr ''Unknown error'')"
    by (simp_all add: dict_get_default_def)
  from assms(1) have np: "(has_key job ''progress'' \<and> has_key job ''total'') = False" by simp
  show ?thesis unfolding conn_inspect_job_def st
    by (simp add: np sv e COMPLETED_STATES_def FAILED_STATES_def Let_def)
qed

section \<open>Runs of the mock connection\<close>


lemma run_summary_Some:
  assumes "run_summary out = Some (st, rc, em, eid, d, c, n, ms)"
  shows "\<exists>r s'. out = Some (Inr r, s') \<and> status r = st \<and> retry_count r = rc
           \<and> error_message r = em \<and> engine_id r = eid \<and> duration_seconds r = d
           \<and> estimated_cost_usd r = c \<and> deploy_count (calls s') = n
           \<and> caught_msgs (calls s') = ms \<and> returned out = Some r \<and> history out = calls s'"
  using assms
  by (auto simp: run_summary_def returned_def history_def
      split: option.splits prod.splits sum.splits)

lemma mock_start_calls [simp]: "calls mock_start = []"
  by (simp add: mock_start_def)

lemma transient_is_retryable: "is_retryable_error ''Transient connection error''"
  by code_simp

lemma invalid_configuration_not_retryable:
  "\<not> is_retryable_error ''Invalid configuration: missing API key''"
  by code_simp

lemma run_success:
  "run_summary (run_analysis (mock_env [] True succeeded_job)
       (mock_config [''v1''] ''e16'' 3) mock_start)
     = Some (COMPLETED, 0, None, PStr ''engine123'', Some 60, Some (60 / 60 / 60 * 0.40), 1, [])"
  by code_simp

lemma run_delete_fails:
  "run_summary (run_analysis (mock_env [] False succeeded_job)
       (mock_config [''v1''] ''e16'' 3) mock_start)
     = Some (COMPLETED, 0, None, PStr ''engine123'', Some 60, Some (60 / 60 / 60 * 0.40), 1, [])"
  by code_simp

lemma run_unknown_size:
  "run_summary (run_analysis (mock_env [] True succeeded_job)
       (mock_config [''v1''] ''e2'' 3) mock_start)
     = Some (COMPLETED, 0, None, PStr ''engine123'', Some 60, None, 1, [])"
  by code_simp

lemma run_transient_then_success:
  "run_summary (run_analysis (mock_env [Some ''Transient connection error''] True succeeded_job)
       (mock_config [''v1''] ''e16'' 1) mock_start)
     = Some (COMPLETED, 1, Some ''Transient connection error'', PStr ''engine123'', Some 120,
             Some (120 / 60 / 60 * 0.40), 2, [''Transient connection error''])"
  by code_simp

lemma run_invalid_configuration:
  "run_summary (run_analysis
       (mock_env [Some ''Invalid configuration: missing API key''] True succeeded_job)
       (mock_config [''v1''] ''e16'' 3) mock_start)
     = Some (FAILED, 0, Some ''Invalid configuration: missing API key'', PStr ''old-engine'',
             Some 60, None, 1, [''Invalid configuration: missing API key''])"
  by code_simp

lemma run_transient_then_invalid_configuration:
  "run_summary (run_analysis
       (mock_env [Some ''Transient connection error'',
                  Some ''Invalid configuration: missing API key''] True succeeded_job)
       (mock_config [''v1''] ''e16'' 3) mock_start)
     = Some (FAILED, 1, Some ''Invalid configuration: missing API key'', PStr ''old-engine'',
             Some 120, None, 2,
             [''Transient connection error'', ''Invalid configuration: missing API key''])"
  by code_simp

lemma run_no_graph_source:
  "run_summary (run_analysis (mock_env [] True succeeded_job)
       (mock_config [] ''e16'' 1) mock_start)
     = Some (FAILED, 1,
             Some ''Must specify either graph_name or both vertex_collections and edge_collections'',
             PStr ''engine123'', Some 120, None, 2,
             [''Must specify either graph_name or both vertex_collections and edge_collections'',
              ''Must specify either graph_name or both vertex_collections and edge_collections''])"
  by code_simp

lemma loading_failed_is_retryable: "is_retryable_error ''Graph loading failed: oom''"
  by code_simp

section \<open>The claims\<close>



text \<open>
  C2, as the code has it. \<open>run_analysis\<close> does not check the graph source before it
  deploys. On a configuration with neither a named graph nor both collection lists no poll is
  reached, so the call either raises from the two steps before the loop, with no deploy call
  made, or returns a result; no load request is sent. Every attempt makes its
  \<open>deploy_engine\<close> call and then fails: a returned result has one deploy call for each
  caught failure and, when the loop ran at all, is \<open>FAILED\<close> with the message of the last
  failure. When the deploy step never raises, each attempt is refused by the guard of
  \<open>load_graph\<close>; the guard's message is retryable, so every attempt is used:
  \<open>max_attempts\<close> deploy calls, and \<open>retry_count = max_attempts - 1\<close>.
\<close>

theorem invalid_graph_source:
  assumes "\<not> (vertex_collections cfg \<noteq> [] \<and> edge_collections cfg \<noteq> [])"
  shows "run_analysis env cfg s \<noteq> None
     \<and> (\<forall>e s'. run_analysis env cfg s = Some (Inl e, s') \<longrightarrow>
           (fst (initialize_connections env s) = Some e
            \<or> fst (check_existing_engines env (snd (initialize_connections env s))) = Some e)
           \<and> (\<exists>ext. calls s' = calls s @ ext \<and> deploy_count ext = 0
                  \<and> filter is_loaddata ext = []))
     \<and> (\<forall>r s'. run_analysis env cfg s = Some (Inr r, s') \<longrightarrow>
           (\<exists>ext. calls s' = calls s @ ext
              \<and> filter is_loaddata ext = []
              \<and> deploy_count ext = length (caught_msgs ext)
              \<and> (0 < max_attempts cfg \<longrightarrow>
                    status r = FAILED \<and> 1 \<le> deploy_count ext
                    \<and> error_message r = Some (last (caught_msgs ext)))
              \<and> ((\<forall>r0 s0. fst (deploy_engine env r0 s0) = None) \<longrightarrow>
                    (\<forall>m \<in> set (caught_msgs ext). m = graph_source_message)
                    \<and> (0 < max_attempts cfg \<longrightarrow>
                          int (deploy_count ext) = max_attempts cfg
                          \<and> retry_count r = max_attempts cfg - 1))))
     \<and> is_retryable_error graph_source_message"
proof -
  let ?r0 = "new_result cfg (clock env (world s))"
  have inv: "\<not> (vertex_collections (config ?r0) \<noteq> [] \<and> edge_collections (config ?r0) \<noteq> [])"
    using assms by simp
  obtain res1 s1 where i: "initialize_connections env s = (res1, s1)"
    by (cases "initialize_connections env s")
  obtain res2 s2 where c: "check_existing_engines env s1 = (res2, s2)"
    by (cases "check_existing_engines env s1")
  from invoke_calls [of "connect env" "Call PENDING Connect" s] i
  have p1: "calls s1 = calls s @ [Call PENDING Connect]"
    by (simp add: initialize_connections_def)
  from c have "calls s2 = calls s1 \<or> calls s2 = calls s1 @ [Call PENDING ListEngines]"
    by (auto simp: check_existing_engines_def
        split: option.splits prod.splits sum.splits if_splits
        dest!: existing_engines_handler_state invoke_calls)
  with p1 obtain pre where p: "calls s2 = calls s @ pre"
    and pp: "pre = [Call PENDING Connect] \<or> pre = [Call PENDING Connect, Call PENDING ListEngines]"
    by auto
  from pp have pq: "filter is_loaddata pre = []" "deploy_count pre = 0" "caught_msgs pre = []"
    by (auto simp: deploy_count_def)
  from retry_loop_invalid [OF inv, of env cfg 0 s2] obtain r1 s3 lp where
    l: "retry_loop env cfg 0 ?r0 s2 = Some (r1, s3)" and lc: "calls s3 = calls s2 @ lp"
    and ll: "filter is_loaddata lp = []" and ld: "deploy_count lp = length (caught_msgs lp)"
    and lg: "(\<forall>r0 s0. fst (deploy_engine env r0 s0) = None) \<longrightarrow>
           (\<forall>m \<in> set (caught_msgs lp). m = graph_source_message)"
    by blast
  from i c l have A: "run_analysis env cfg s \<noteq> None"
    by (auto simp: run_analysis_def Let_def split: prod.splits option.splits)
  have B: "\<forall>e s'. run_analysis env cfg s = Some (Inl e, s') \<longrightarrow>
           (fst (initialize_connections env s) = Some e
            \<or> fst (check_existing_engines env (snd (initialize_connections env s))) = Some e)
           \<and> (\<exists>ext. calls s' = calls s @ ext \<and> deploy_count ext = 0
                  \<and> filter is_loaddata ext = [])"
  proof (intro allI impI)
    fix e s'
    assume a: "run_analysis env cfg s = Some (Inl e, s')"
    note b1 = run_analysis_Inl [OF a]
    from a i c l have "s' = s1 \<or> s' = s2"
      by (auto simp: run_analysis_def Let_def split: prod.splits option.splits)
    then have "calls s' = calls s @ [Call PENDING Connect] \<or> calls s' = calls s @ pre"
      using p1 p by auto
    then have b2: "\<exists>ext. calls s' = calls s @ ext \<and> deploy_count ext = 0
                  \<and> filter is_loaddata ext = []"
    proof
      assume "calls s' = calls s @ [Call PENDING Connect]"
      then have "calls s' = calls s @ [Call PENDING Connect]
          \<and> deploy_count [Call PENDING Connect] = 0
          \<and> filter is_loaddata [Call PENDING Connect] = []" by (simp add: deploy_count_def)
      then show ?thesis by blast
    next
      assume "calls s' = calls s @ pre"
      with pq(1,2) show ?thesis by blast
    qed
    from b1 b2 show "(fst (initialize_connections env s) = Some e
            \<or> fst (check_existing_engines env (snd (initialize_connections env s))) = Some e)
           \<and> (\<exists>ext. calls s' = calls s @ ext \<and> deploy_count ext = 0
                  \<and> filter is_loaddata ext = [])" by (rule conjI)
  qed
  have C: "\<forall>r s'. run_analysis env cfg s = Some (Inr r, s') \<longrightarrow>
           (\<exists>ext. calls s' = calls s @ ext
              \<and> filter is_loaddata ext = []
              \<and> deploy_count ext = length (caught_msgs ext)
              \<and> (0 < max_attempts cfg \<longrightarrow>
                    status r = FAILED \<and> 1 \<le> deploy_count ext
                    \<and> error_message r = Some (last (caught_msgs ext)))
              \<and> ((\<forall>r0 s0. fst (deploy_engine env r0 s0) = None) \<longrightarrow>
                    (\<forall>m \<in> set (caught_msgs ext). m = graph_source_message)
                    \<and> (0 < max_attempts cfg \<longrightarrow>
                          int (deploy_count ext) = max_attempts cfg
                          \<and> retry_count r = max_attempts cfg - 1)))"
  proof (intro allI impI)
    fix r s'
    assume a: "run_analysis env cfg s = Some (Inr r, s')"
    from a i c l have f: "final_cleanup env cfg r1 s3 = (r, s')"
      by (auto simp: run_analysis_def Let_def split: prod.splits option.splits)
    have fin: "status r1 = COMPLETED \<or> status r1 = FAILED \<or> \<not> truthy (engine_id r1)"
    proof (cases "0 < max_attempts cfg")
      case True
      from retry_loop_summary [OF l True] lc have "loop_summary cfg 0 ?r0 lp r1" by auto
      from loop_summary_bounds(4) [OF this] show ?thesis by blast
    next
      case False
      with l have "r1 = ?r0" by (simp add: retry_loop.simps)
      then show ?thesis by simp
    qed
    from final_cleanup_effect [OF f fin] have eq: "r = r1"
      and fc: "calls s' = calls s3 @ (if truthy (engine_id r1) \<and> auto_cleanup cfg
                               then [Call CLEANING_UP (DeleteEngine (engine_id r1))] else [])"
      by simp_all
    let ?fin = "if truthy (engine_id r1) \<and> auto_cleanup cfg
                then [Call CLEANING_UP (DeleteEngine (engine_id r1))] else []"
    let ?ext = "pre @ lp @ ?fin"
    have 1: "calls s' = calls s @ ?ext" using p lc fc by simp
    have 2: "filter is_loaddata ?ext = []" using pq(1) ll by simp
    have dc: "deploy_count ?ext = deploy_count lp" using pq(2) by simp
    have cm: "caught_msgs ?ext = caught_msgs lp" using pq(3) by simp
    have 3: "deploy_count ?ext = length (caught_msgs ?ext)" using dc cm ld by simp
    have 4: "0 < max_attempts cfg \<longrightarrow> status r = FAILED \<and> 1 \<le> deploy_count ?ext
               \<and> error_message r = Some (last (caught_msgs ?ext))"
    proof
      assume pos: "0 < max_attempts cfg"
      from retry_loop_summary [OF l pos] lc have ls: "loop_summary cfg 0 ?r0 lp r1" by auto
      have nc: "status r1 \<noteq> COMPLETED"
      proof
        assume "status r1 = COMPLETED"
        from loop_summary_completed(1) [OF ls this] ld show False by simp
      qed
      from loop_summary_failed(1,4) [OF ls nc] loop_summary_bounds(1) [OF ls] eq
      show "status r = FAILED \<and> 1 \<le> deploy_count ?ext
               \<and> error_message r = Some (last (caught_msgs ?ext))"
        unfolding dc cm by simp
    qed
    have 5: "(\<forall>r0 s0. fst (deploy_engine env r0 s0) = None) \<longrightarrow>
               (\<forall>m \<in> set (caught_msgs ?ext). m = graph_source_message)
               \<and> (0 < max_attempts cfg \<longrightarrow>
                     int (deploy_count ?ext) = max_attempts cfg
                     \<and> retry_count r = max_attempts cfg - 1)"
    proof (intro conjI impI)
      assume ok: "\<forall>r0 s0. fst (deploy_engine env r0 s0) = None"
      from lg ok have all: "\<forall>m \<in> set (caught_msgs lp). m = graph_source_message" by blast
      then show "\<forall>m \<in> set (caught_msgs ?ext). m = graph_source_message" unfolding cm .
      assume pos: "0 < max_attempts cfg"
      from retry_loop_summary [OF l pos] lc have ls: "loop_summary cfg 0 ?r0 lp r1" by auto
      have nc: "status r1 \<noteq> COMPLETED"
      proof
        assume "status r1 = COMPLETED"
        from loop_summary_completed(1) [OF ls this] ld show False by simp
      qed
      from loop_summary_failed(3) [OF ls nc] all
      have "last (caught_msgs lp) = graph_source_message" by simp
      with graph_source_message_retryable loop_summary_failed(6) [OF ls nc]
      have d: "int (deploy_count lp) = max_attempts cfg" by simp
      then show "int (deploy_count ?ext) = max_attempts cfg" unfolding dc .
      from loop_summary_bounds(5) [OF ls] d eq pos
      show "retry_count r = max_attempts cfg - 1" by (simp split: if_splits)
    qed
    from 1 2 3 4 5
    show "\<exists>ext. calls s' = calls s @ ext
              \<and> filter is_loaddata ext = []
              \<and> deploy_count ext = length (caught_msgs ext)
              \<and> (0 < max_attempts cfg \<longrightarrow>
                    status r = FAILED \<and> 1 \<le> deploy_count ext
                    \<and> error_message r = Some (last (caught_msgs ext)))
              \<and> ((\<forall>r0 s0. fst (deploy_engine env r0 s0) = None) \<longrightarrow>
                    (\<forall>m \<in> set (caught_msgs ext). m = graph_source_message)
                    \<and> (0 < max_attempts cfg \<longrightarrow>
                          int (deploy_count ext) = max_attempts cfg
                          \<and> retry_count r = max_attempts cfg - 1))"
      by (intro exI [of _ ?ext] conjI)
  qed
  from A B C graph_source_message_retryable show ?thesis by (intro conjI)
qed

theorem invalid_graph_source_witness:
  "\<not> (vertex_collections (mock_config [] ''e16'' 1) \<noteq> []
       \<and> edge_collections (mock_config [] ''e16'' 1) \<noteq> [])
   \<and> 0 < max_attempts (mock_config [] ''e16'' 1)
   \<and> (\<forall>r0 s0. fst (deploy_engine (mock_env [] True succeeded_job) r0 s0) = None)
   \<and> map_option status (returned (run_analysis (mock_env [] True succeeded_job)
         (mock_config [] ''e16'' 1) mock_start)) = Some FAILED
   \<and> map_option error_message (returned (run_analysis (mock_env [] True succeeded_job)
         (mock_config [] ''e16'' 1) mock_start)) = Some (Some graph_source_message)
   \<and> int (deploy_count (history (run_analysis (mock_env [] True succeeded_job)
         (mock_config [] ''e16'' 1) mock_start))) = max_attempts (mock_config [] ''e16'' 1)
   \<and> filter is_loaddata (history (run_analysis (mock_env [] True succeeded_job)
         (mock_config [] ''e16'' 1) mock_start)) = []"
proof -
  let ?env = "mock_env [] True succeeded_job" and ?cfg = "mock_config [] ''e16'' 1"
  let ?out = "run_analysis ?env ?cfg mock_start"
  have h: "\<not> (vertex_collections ?cfg \<noteq> [] \<and> edge_collections ?cfg \<noteq> [])"
    by (simp add: mock_config_def)
  have m: "0 < max_attempts ?cfg" by (simp add: mock_config_def max_attempts_def)
  have ok: "\<forall>r0 s0. fst (deploy_engine ?env r0 s0) = None"
    by (simp add: mock_deploys_succeed)
  from run_summary_Some [OF run_no_graph_source] obtain r s' where
    out: "?out = Some (Inr r, s')" and ret: "returned ?out = Some r"
    and hist: "history ?out = calls s'"
    and cm: "caught_msgs (calls s') = [graph_source_message, graph_source_message]"
    unfolding graph_source_message_def by blast
  from invalid_graph_source [OF h, of ?env mock_start] out obtain ext where
    e: "calls s' = calls mock_start @ ext" and nl: "filter is_loaddata ext = []"
    and f: "0 < max_attempts ?cfg \<longrightarrow>
                    status r = FAILED \<and> 1 \<le> deploy_count ext
                    \<and> error_message r = Some (last (caught_msgs ext))"
    and g: "(\<forall>r0 s0. fst (deploy_engine ?env r0 s0) = None) \<longrightarrow>
                    (\<forall>m \<in> set (caught_msgs ext). m = graph_source_message)
                    \<and> (0 < max_attempts ?cfg \<longrightarrow>
                          int (deploy_count ext) = max_attempts ?cfg
                          \<and> retry_count r = max_attempts ?cfg - 1)"
    by blast
  from e have ee: "ext = calls s'" by simp
  from f m have st: "status r = FAILED" and em: "error_message r = Some (last (caught_msgs ext))"
    by simp_all
  from em cm have em': "error_message r = Some graph_source_message" unfolding ee by simp
  from g ok m have dc: "int (deploy_count (calls s')) = max_attempts ?cfg" unfolding ee by blast
  from nl have nl': "filter is_loaddata (calls s') = []" unfolding ee .
  from h m ok st em' dc nl' ret hist show ?thesis by simp
qed

text \<open>
  The claim as stated fails: with \<open>max_retries = 1\<close> the mock connection sees two deploy
  calls and the result has \<open>retry_count = 1\<close>, since the guard's message matches no
  non-retryable pattern.
\<close>

theorem invalid_graph_source_retried:
  "\<not> (vertex_collections (mock_config [] ''e16'' 1) \<noteq> []
       \<and> edge_collections (mock_config [] ''e16'' 1) \<noteq> [])
   \<and> map_option status (returned (run_analysis (mock_env [] True succeeded_job)
         (mock_config [] ''e16'' 1) mock_start)) = Some FAILED
   \<and> map_option retry_count (returned (run_analysis (mock_env [] True succeeded_job)
         (mock_config [] ''e16'' 1) mock_start)) = Some 1
   \<and> deploy_count (history (run_analysis (mock_env [] True succeeded_job)
         (mock_config [] ''e16'' 1) mock_start)) = 2"
proof -
  from run_summary_Some [OF run_no_graph_source] show ?thesis
    by (auto simp: mock_config_def)
qed

text \<open>
  C3. The orchestrator's poller does not count the state \<open>succeeded\<close> as completed: the
  record \<open>{"state": "succeeded"}\<close> is pending for \<open>_wait_for_job\<close>, while the
  connection's \<open>wait_for_job\<close>, which reads \<open>COMPLETED_STATES\<close>, is done with it. With
  a timeout of 4 seconds the orchestrator polls such a job until it raises \<open>TimeoutError\<close>.
  (\<open>inspect_job_state_shape\<close> and \<open>conn_inspect_job_state_shape\<close> above give both
  pollers on every record of the state shape.)
\<close>

theorem state_succeeded_keeps_polling:
  "inspect_job descr [(''state'', PStr ''succeeded'')] = JobPending
   \<and> conn_inspect_job jid [(''state'', PStr ''succeeded'')] = JobDone
   \<and> map_option fst (wait_for_job (mock_env [] True state_succeeded_job) GRAPH_LOADING (Some 4)
         (PStr ''load123'') ''Graph loading'' mock_start)
       = Some (Inl (Exn TimeoutError ''Graph loading timed out after 6s''))"
proof (intro conjI)
  show "inspect_job descr [(''state'', PStr ''succeeded'')] = JobPending"
    by (simp add: inspect_job_def has_key_def dict_get_def)
  show "conn_inspect_job jid [(''state'', PStr ''succeeded'')] = JobDone"
    by (simp add: conn_inspect_job_def has_key_def dict_get_default_def COMPLETED_STATES_def)
  show "map_option fst (wait_for_job (mock_env [] True state_succeeded_job) GRAPH_LOADING (Some 4)
         (PStr ''load123'') ''Graph loading'' mock_start)
       = Some (Inl (Exn TimeoutError ''Graph loading timed out after 6s''))"
    by code_simp
qed

text \<open>
  C4, as the code has it. The classifier reports a message as retryable exactly when its
  lower-cased text contains none of the lower-cased patterns. In the history of a run every
  caught message but the last is retryable, so a non-retryable failure ends the loop at once:
  the result is \<open>FAILED\<close> with that message and no deploy call follows it. When it is the
  first failure of the run, \<open>retry_count\<close> is 0 and there was one deploy call, whatever
  \<open>max_retries\<close> is.
\<close>

theorem non_retryable_exits_loop:
  "(is_retryable_error msg \<longleftrightarrow>
      \<not> (\<exists>p \<in> set NON_RETRYABLE_ERRORS. \<exists>u v. lower msg = u @ lower p @ v))
   \<and> (\<forall>r s'. run_analysis env cfg s = Some (Inr r, s') \<longrightarrow>
        (\<exists>ext. calls s' = calls s @ ext
           \<and> (\<forall>m \<in> set (butlast (caught_msgs ext)). is_retryable_error m)
           \<and> (caught_msgs ext \<noteq> [] \<and> \<not> is_retryable_error (last (caught_msgs ext)) \<longrightarrow>
                status r = FAILED
                \<and> error_message r = Some (last (caught_msgs ext))
                \<and> deploy_count ext = length (caught_msgs ext)
                \<and> (length (caught_msgs ext) = 1 \<longrightarrow> retry_count r = 0))))"
proof (intro conjI allI impI)
  show "is_retryable_error msg \<longleftrightarrow>
      \<not> (\<exists>p \<in> set NON_RETRYABLE_ERRORS. \<exists>u v. lower msg = u @ lower p @ v)"
    by (rule is_retryable_error_iff)
next
  fix r s'
  let ?r0 = "new_result cfg (clock env (world s))"
  assume "run_analysis env cfg s = Some (Inr r, s')"
  from run_analysis_history [OF this] obtain ext lp where
    c: "calls s' = calls s @ ext"
    and d: "deploy_count ext = deploy_count lp" and f: "caught_msgs ext = caught_msgs lp"
    and l: "if 0 < max_attempts cfg then loop_summary cfg 0 ?r0 lp r
            else lp = [] \<and> r = ?r0"
    by blast
  have 1: "\<forall>m \<in> set (butlast (caught_msgs ext)). is_retryable_error m"
  proof (cases "0 < max_attempts cfg")
    case True
    with l have "loop_summary cfg 0 ?r0 lp r" by simp
    from loop_summary_bounds(3) [OF this] show ?thesis unfolding f .
  next
    case False
    with l f show ?thesis by simp
  qed
  have 2: "status r = FAILED
                \<and> error_message r = Some (last (caught_msgs ext))
                \<and> deploy_count ext = length (caught_msgs ext)
                \<and> (length (caught_msgs ext) = 1 \<longrightarrow> retry_count r = 0)"
    if h: "caught_msgs ext \<noteq> []" "\<not> is_retryable_error (last (caught_msgs ext))"
  proof -
    from h(1) l f have ls: "loop_summary cfg 0 ?r0 lp r" by (cases "0 < max_attempts cfg") auto
    have nc: "status r \<noteq> COMPLETED"
    proof
      assume "status r = COMPLETED"
      from loop_summary_completed(2) [OF ls this] h show False unfolding f by simp
    qed
    note fl = loop_summary_failed [OF ls nc]
    from fl(2) have dl: "deploy_count lp = length (caught_msgs lp)" by simp
    have "retry_count r = 0" if "length (caught_msgs ext) = 1"
      using loop_summary_bounds(5) [OF ls] dl that unfolding f by simp
    with fl(1,4) dl show ?thesis unfolding d f by simp
  qed
  from c 1 2 show "\<exists>ext. calls s' = calls s @ ext
           \<and> (\<forall>m \<in> set (butlast (caught_msgs ext)). is_retryable_error m)
           \<and> (caught_msgs ext \<noteq> [] \<and> \<not> is_retryable_error (last (caught_msgs ext)) \<longrightarrow>
                status r = FAILED
                \<and> error_message r = Some (last (caught_msgs ext))
                \<and> deploy_count ext = length (caught_msgs ext)
                \<and> (length (caught_msgs ext) = 1 \<longrightarrow> retry_count r = 0))"
    by blast
qed

theorem non_retryable_exits_loop_witness:
  "\<not> is_retryable_error ''Invalid configuration: missing API key''
   \<and> caught_msgs (history (run_analysis
         (mock_env [Some ''Invalid configuration: missing API key''] True succeeded_job)
         (mock_config [''v1''] ''e16'' 3) mock_start))
       = [''Invalid configuration: missing API key'']
   \<and> map_option status (returned (run_analysis
         (mock_env [Some ''Invalid configuration: missing API key''] True succeeded_job)
         (mock_config [''v1''] ''e16'' 3) mock_start)) = Some FAILED
   \<and> map_option retry_count (returned (run_analysis
         (mock_env [Some ''Invalid configuration: missing API key''] True succeeded_job)
         (mock_config [''v1''] ''e16'' 3) mock_start)) = Some 0
   \<and> deploy_count (history (run_analysis
         (mock_env [Some ''Invalid configuration: missing API key''] True succeeded_job)
         (mock_config [''v1''] ''e16'' 3) mock_start)) = 1"
proof -
  let ?env = "mock_env [Some ''Invalid configuration: missing API key''] True succeeded_job"
  let ?cfg = "mock_config [''v1''] ''e16'' 3"
  let ?out = "run_analysis ?env ?cfg mock_start"
  from run_summary_Some [OF run_invalid_configuration] obtain r s' where
    out: "?out = Some (Inr r, s')"
    and cm: "caught_msgs (calls s') = [''Invalid configuration: missing API key'']"
    and ret: "returned ?out = Some r" and h: "history ?out = calls s'" by blast
  from non_retryable_exits_loop [of "''x''" ?env ?cfg mock_start] out
  obtain ext where e: "calls s' = calls mock_start @ ext"
    and c: "caught_msgs ext \<noteq> [] \<and> \<not> is_retryable_error (last (caught_msgs ext)) \<longrightarrow>
                status r = FAILED
                \<and> error_message r = Some (last (caught_msgs ext))
                \<and> deploy_count ext = length (caught_msgs ext)
                \<and> (length (caught_msgs ext) = 1 \<longrightarrow> retry_count r = 0)"
    by blast
  from e have ee: "ext = calls s'" by simp
  from c cm invalid_configuration_not_retryable
  have "status r = FAILED" "retry_count r = 0" "deploy_count (calls s') = 1"
    unfolding ee by simp_all
  with cm ret h invalid_configuration_not_retryable show ?thesis by simp
qed

text \<open>
  The claim as stated fails when the non-retryable failure is not the first one: after one
  transient failure the result has \<open>retry_count = 1\<close> and there were two deploy calls.
\<close>

theorem non_retryable_after_retry:
  "\<not> is_retryable_error ''Invalid configuration: missing API key''
   \<and> caught_msgs (history (run_analysis
         (mock_env [Some ''Transient connection error'',
                    Some ''Invalid configuration: missing API key''] True succeeded_job)
         (mock_config [''v1''] ''e16'' 3) mock_start))
       = [''Transient connection error'', ''Invalid configuration: missing API key'']
   \<and> map_option retry_count (returned (run_analysis
         (mock_env [Some ''Transient connection error'',
                    Some ''Invalid configuration: missing API key''] True succeeded_job)
         (mock_config [''v1''] ''e16'' 3) mock_start)) = Some 1
   \<and> deploy_count (history (run_analysis
         (mock_env [Some ''Transient connection error'',
                    Some ''Invalid configuration: missing API key''] True succeeded_job)
         (mock_config [''v1''] ''e16'' 3) mock_start)) = 2"
proof -
  from run_summary_Some [OF run_transient_then_invalid_configuration]
    invalid_configuration_not_retryable
  show ?thesis by auto
qed

text \<open>
  C5, as the code has it. Every iteration makes one deploy call, so the deploy calls count the
  iterations. With retries enabled, \<open>max_retries\<close> not negative and every caught failure
  retryable, a run in which an attempt succeeds after \<open>k\<close> failures has made \<open>k + 1\<close>
  deploy calls, which is \<open>min (k + 1) (max_retries + 1)\<close>, and a run in which no attempt
  succeeds has made \<open>max_retries + 1\<close>. With retries enabled the loop runs at most
  \<open>max_retries + 1\<close> times (not at all when \<open>max_retries\<close> is negative), and with
  retries disabled exactly once. The number of failures before the success is one less than
  the number of deploy calls: one transient failure followed by a success is two deploy calls.
\<close>

theorem deploy_attempts:
  assumes "run_analysis env cfg s = Some (Inr r, s')"
  shows "\<exists>ext. calls s' = calls s @ ext \<and>
     (retry_on_failure cfg \<and> 0 \<le> max_retries cfg
        \<and> (\<forall>m \<in> set (caught_msgs ext). is_retryable_error m) \<longrightarrow>
        int (deploy_count ext) =
          (if status r = COMPLETED
           then min (int (length (caught_msgs ext)) + 1) (max_retries cfg + 1)
           else max_retries cfg + 1)) \<and>
     (retry_on_failure cfg \<and> 0 \<le> max_retries cfg \<longrightarrow>
        int (deploy_count ext) \<le> max_retries cfg + 1) \<and>
     (retry_on_failure cfg \<and> max_retries cfg < 0 \<longrightarrow> deploy_count ext = 0) \<and>
     (\<not> retry_on_failure cfg \<longrightarrow> deploy_count ext = 1)"
proof -
  let ?r0 = "new_result cfg (clock env (world s))"
  from run_analysis_history [OF assms] obtain ext lp where
    c: "calls s' = calls s @ ext"
    and d: "deploy_count ext = deploy_count lp" and f: "caught_msgs ext = caught_msgs lp"
    and l: "if 0 < max_attempts cfg then loop_summary cfg 0 ?r0 lp r
            else lp = [] \<and> r = ?r0"
    by blast
  have 1: "int (deploy_count ext) =
          (if status r = COMPLETED
           then min (int (length (caught_msgs ext)) + 1) (max_retries cfg + 1)
           else max_retries cfg + 1)"
    if h: "retry_on_failure cfg" "0 \<le> max_retries cfg"
      "\<forall>m \<in> set (caught_msgs ext). is_retryable_error m"
  proof -
    from h have ma: "max_attempts cfg = max_retries cfg + 1" by (simp add: max_attempts_def)
    with h l have ls: "loop_summary cfg 0 ?r0 lp r" by simp
    show ?thesis
    proof (cases "status r = COMPLETED")
      case True
      from loop_summary_completed(1) [OF ls True] loop_summary_bounds(2) [OF ls] ma True
      show ?thesis unfolding d f by simp
    next
      case False
      from loop_summary_failed(3) [OF ls False] h(3)
      have "is_retryable_error (last (caught_msgs lp))" unfolding f by simp
      with loop_summary_failed(6) [OF ls False] ma False
      show ?thesis unfolding d f by simp
    qed
  qed
  have 2: "int (deploy_count ext) \<le> max_retries cfg + 1"
    if h: "retry_on_failure cfg" "0 \<le> max_retries cfg"
  proof -
    from h have ma: "max_attempts cfg = max_retries cfg + 1" by (simp add: max_attempts_def)
    with h l have ls: "loop_summary cfg 0 ?r0 lp r" by simp
    from loop_summary_bounds(2) [OF ls] ma show ?thesis unfolding d by simp
  qed
  have 3: "deploy_count ext = 0" if h: "retry_on_failure cfg" "max_retries cfg < 0"
  proof -
    from h have "\<not> 0 < max_attempts cfg" by (simp add: max_attempts_def)
    with l have "lp = []" by simp
    then show ?thesis unfolding d by (simp add: deploy_count_def)
  qed
  have 4: "deploy_count ext = 1" if h: "\<not> retry_on_failure cfg"
  proof -
    from h have ma: "max_attempts cfg = 1" by (simp add: max_attempts_def)
    with l have ls: "loop_summary cfg 0 ?r0 lp r" by simp
    from loop_summary_bounds(1,2) [OF ls] ma show ?thesis unfolding d by simp
  qed
  from c 1 2 3 4 show ?thesis by blast
qed

theorem deploy_attempts_witness:
  "retry_on_failure (mock_config [''v1''] ''e16'' 1)
   \<and> 0 \<le> max_retries (mock_config [''v1''] ''e16'' 1)
   \<and> caught_msgs (history (run_analysis
         (mock_env [Some ''Transient connection error''] True succeeded_job)
         (mock_config [''v1''] ''e16'' 1) mock_start)) = [''Transient connection error'']
   \<and> is_retryable_error ''Transient connection error''
   \<and> map_option status (returned (run_analysis
         (mock_env [Some ''Transient connection error''] True succeeded_job)
         (mock_config [''v1''] ''e16'' 1) mock_start)) = Some COMPLETED
   \<and> int (deploy_count (history (run_analysis
         (mock_env [Some ''Transient connection error''] True succeeded_job)
         (mock_config [''v1''] ''e16'' 1) mock_start)))
       = min (1 + 1) (max_retries (mock_config [''v1''] ''e16'' 1) + 1)"
proof -
  let ?env = "mock_env [Some ''Transient connection error''] True succeeded_job"
  let ?cfg = "mock_config [''v1''] ''e16'' 1"
  let ?out = "run_analysis ?env ?cfg mock_start"
  have cf: "retry_on_failure ?cfg" "0 \<le> max_retries ?cfg" by (simp_all add: mock_config_def)
  from run_summary_Some [OF run_transient_then_success] obtain r s' where
    out: "?out = Some (Inr r, s')" and st: "status r = COMPLETED"
    and cm: "caught_msgs (calls s') = [''Transient connection error'']"
    and ret: "returned ?out = Some r" and h: "history ?out = calls s'" by blast
  from deploy_attempts [OF out] obtain ext where e: "calls s' = calls mock_start @ ext"
    and c: "retry_on_failure ?cfg \<and> 0 \<le> max_retries ?cfg
        \<and> (\<forall>m \<in> set (caught_msgs ext). is_retryable_error m) \<longrightarrow>
        int (deploy_count ext) =
          (if status r = COMPLETED
           then min (int (length (caught_msgs ext)) + 1) (max_retries ?cfg + 1)
           else max_retries ?cfg + 1)"
    by blast
  from e have ee: "ext = calls s'" by simp
  from c cf cm st transient_is_retryable
  have "int (deploy_count (calls s')) = min (1 + 1) (max_retries ?cfg + 1)"
    unfolding ee by simp
  with cf cm st ret h transient_is_retryable show ?thesis by simp
qed

text \<open>
  With the failures before the success in place of the attempts, the formula is one short:
  the run above caught one failure and made two deploy calls, and \<open>min 1 (max_retries + 1)\<close>
  is one.
\<close>

theorem one_failure_two_deploys:
  "retry_on_failure (mock_config [''v1''] ''e16'' 1)
   \<and> max_retries (mock_config [''v1''] ''e16'' 1) = 1
   \<and> caught_msgs (history (run_analysis
         (mock_env [Some ''Transient connection error''] True succeeded_job)
         (mock_config [''v1''] ''e16'' 1) mock_start)) = [''Transient connection error'']
   \<and> is_retryable_error ''Transient connection error''
   \<and> map_option status (returned (run_analysis
         (mock_env [Some ''Transient connection error''] True succeeded_job)
         (mock_config [''v1''] ''e16'' 1) mock_start)) = Some COMPLETED
   \<and> deploy_count (history (run_analysis
         (mock_env [Some ''Transient connection error''] True succeeded_job)
         (mock_config [''v1''] ''e16'' 1) mock_start)) = 2
   \<and> int (deploy_count (history (run_analysis
         (mock_env [Some ''Transient connection error''] True succeeded_job)
         (mock_config [''v1''] ''e16'' 1) mock_start)))
       \<noteq> min (int (length (caught_msgs (history (run_analysis
               (mock_env [Some ''Transient connection error''] True succeeded_job)
               (mock_config [''v1''] ''e16'' 1) mock_start)))))
             (max_retries (mock_config [''v1''] ''e16'' 1) + 1)"
proof -
  have cf: "retry_on_failure (mock_config [''v1''] ''e16'' 1)"
    "max_retries (mock_config [''v1''] ''e16'' 1) = 1"
    by (simp_all add: mock_config_def)
  from run_summary_Some [OF run_transient_then_success] cf transient_is_retryable
  show ?thesis by auto
qed

text \<open>
  C6, as the code has it. On success \<open>estimated_cost_usd\<close> is
  \<open>(duration_seconds / 60 / 60) * rate\<close> when the engine size has an entry in
  \<open>ENGINE_COSTS\<close>, and is left unset (\<open>None\<close>) when it has none. The arithmetic is
  that of the reals; the source computes the same expression in floating point.
\<close>

theorem cost_estimate_on_success:
  assumes "run_analysis env cfg s = Some (Inr r, s')" and "status r = COMPLETED"
  shows "\<exists>d. duration_seconds r = Some d
           \<and> estimated_cost_usd r =
               (case map_of ENGINE_COSTS (engine_size cfg) of
                  Some rate \<Rightarrow> Some (d / 60 / 60 * rate)
                | None \<Rightarrow> None)"
proof -
  from run_analysis_Inr [OF assms(1)] obtain ext where
    l: "if 0 < max_attempts cfg
               then loop_summary cfg 0 (new_result cfg (clock env (world s))) ext r
               else ext = [] \<and> r = new_result cfg (clock env (world s))"
    by blast
  from l assms(2) have "loop_summary cfg 0 (new_result cfg (clock env (world s))) ext r"
    by (auto split: if_splits)
  with assms(2) obtain d where "duration_seconds r = Some d"
    "estimated_cost_usd r =
       (if hourly_rate (engine_size cfg) > 0
        then Some (d / 60 / 60 * hourly_rate (engine_size cfg)) else None)"
    by (auto simp: loop_summary_def Let_def)
  then show ?thesis by (auto simp: hourly_rate_lookup)
qed

theorem cost_estimate_on_success_witness:
  "map_option status (returned (run_analysis (mock_env [] True succeeded_job)
         (mock_config [''v1''] ''e16'' 3) mock_start)) = Some COMPLETED
   \<and> map_of ENGINE_COSTS (engine_size (mock_config [''v1''] ''e16'' 3)) = Some 0.40
   \<and> map_option duration_seconds (returned (run_analysis (mock_env [] True succeeded_job)
         (mock_config [''v1''] ''e16'' 3) mock_start)) = Some (Some 60)
   \<and> map_option estimated_cost_usd (returned (run_analysis (mock_env [] True succeeded_job)
         (mock_config [''v1''] ''e16'' 3) mock_start)) = Some (Some (60 / 60 / 60 * 0.40))"
proof -
  let ?env = "mock_env [] True succeeded_job" and ?cfg = "mock_config [''v1''] ''e16'' 3"
  let ?out = "run_analysis ?env ?cfg mock_start"
  have rate: "map_of ENGINE_COSTS (engine_size ?cfg) = Some 0.40"
    by (simp add: mock_config_def ENGINE_COSTS_def)
  from run_summary_Some [OF run_success] obtain r s' where
    out: "?out = Some (Inr r, s')" and st: "status r = COMPLETED"
    and d: "duration_seconds r = Some 60" and ret: "returned ?out = Some r" by blast
  from cost_estimate_on_success [OF out st] d rate
  have "estimated_cost_usd r = Some (60 / 60 / 60 * 0.40)" by auto
  with st d ret rate show ?thesis by simp
qed

text \<open>
  The claim as stated fails for a size without a rate: the cost is \<open>None\<close>, not 0.
\<close>

theorem cost_unset_for_unknown_size:
  "map_of ENGINE_COSTS (engine_size (mock_config [''v1''] ''e2'' 3)) = None
   \<and> map_option status (returned (run_analysis (mock_env [] True succeeded_job)
         (mock_config [''v1''] ''e2'' 3) mock_start)) = Some COMPLETED
   \<and> map_option estimated_cost_usd (returned (run_analysis (mock_env [] True succeeded_job)
         (mock_config [''v1''] ''e2'' 3) mock_start)) = Some None"
proof -
  have "map_of ENGINE_COSTS (engine_size (mock_config [''v1''] ''e2'' 3)) = None"
    by (simp add: mock_config_def ENGINE_COSTS_def)
  with run_summary_Some [OF run_unknown_size] show ?thesis by auto
qed

text \<open>
  C7, as the code has it. When an iteration fails with a retryable error while attempts
  remain and an engine identifier is recorded, the handler calls \<open>delete_engine\<close> on it
  under the status \<open>CLEANING_UP\<close>, catches what that call raises, restores \<open>FAILED\<close>,
  and the next iteration starts from the record it leaves: with the identifier cleared to
  \<open>None\<close> when the teardown succeeded, and unchanged when the teardown raised.
\<close>

theorem teardown_before_retry:
  assumes "is_retryable_error (exn_str e)" and "retry_on_failure cfg"
    and "attempt < max_retries cfg" and "truthy (engine_id r)"
  shows "\<exists>r' s'. on_exception env cfg attempt e r s = Retry r' s'
           \<and> calls s' = calls s @ [Caught (exn_str e),
                                     Call CLEANING_UP (DeleteEngine (engine_id r))]
           \<and> status r' = FAILED
           \<and> engine_id r' = (if fst (gae_delete_engine env (engine_id r) (world s)) = None
                              then PNone else engine_id r)
           \<and> (\<forall>r0 s0. execute_steps env (if attempt > 0 then r0\<lparr>retry_count := attempt\<rparr> else r0) s0
                          = Some (Some e, r, s)
                 \<longrightarrow> retry_loop env cfg attempt r0 s0 = retry_loop env cfg (attempt + 1) r' s')"
proof -
  let ?r1 = "mark_failed env e r s" and ?s1 = "record_event (Caught (exn_str e)) s"
  have e1: "engine_id ?r1 = engine_id r" "status ?r1 = FAILED"
    by (simp_all add: mark_failed_def Let_def)
  have s1: "calls ?s1 = calls s @ [Caught (exn_str e)]" "world ?s1 = world s"
    by (simp_all add: record_event_def)
  obtain res ra sa where ce: "cleanup_engine env ?r1 ?s1 = (res, ra, sa)"
    by (cases "cleanup_engine env ?r1 ?s1")
  from cleanup_engine_effect [OF ce] e1 s1 have
    ca: "calls sa = calls s @ [Caught (exn_str e), Call CLEANING_UP (DeleteEngine (engine_id r))]"
    and ea: "engine_id ra = engine_id r" and sa: "status ra = FAILED"
    and ra: "res = fst (gae_delete_engine env (engine_id r) (world s))"
    by simp_all
  let ?r' = "if res = None then ra\<lparr>engine_id := PNone\<rparr> else ra"
  from assms(4) e1 ce have cb: "cleanup_before_retry env ?r1 ?s1 = (?r', sa)"
    by (cases res) (simp_all add: cleanup_before_retry_def)
  with assms(1-3) have oe: "on_exception env cfg attempt e r s = Retry ?r' sa"
    by (simp add: on_exception_def Let_def)
  have lk: "retry_loop env cfg attempt r0 s0 = retry_loop env cfg (attempt + 1) ?r' sa"
    if "execute_steps env (if attempt > 0 then r0\<lparr>retry_count := attempt\<rparr> else r0) s0
          = Some (Some e, r, s)" for r0 s0
  proof -
    from that oe have "iteration env cfg attempt r0 s0 = Some (Retry ?r' sa)"
      by (simp add: iteration_def)
    moreover from assms(2,3) have "attempt < max_attempts cfg" by (simp add: max_attempts_def)
    ultimately show ?thesis by (subst retry_loop.simps) simp
  qed
  show ?thesis
    apply (rule exI [of _ ?r'], rule exI [of _ sa])
    using oe ca ea sa ra lk by auto
qed

theorem teardown_before_retry_witness:
  "is_retryable_error (exn_str (Exn RuntimeError ''Graph loading failed: oom''))
   \<and> retry_on_failure (mock_config [''v1''] ''e16'' 3)
   \<and> 0 < max_retries (mock_config [''v1''] ''e16'' 3)
   \<and> truthy (engine_id mock_loading_result)
   \<and> fst (gae_delete_engine (mock_env [] True succeeded_job) (engine_id mock_loading_result)
           (world mock_start)) = None
   \<and> is_retry (on_exception (mock_env [] True succeeded_job) (mock_config [''v1''] ''e16'' 3) 0
         (Exn RuntimeError ''Graph loading failed: oom'') mock_loading_result mock_start)
   \<and> engine_id (exit_result (on_exception (mock_env [] True succeeded_job)
         (mock_config [''v1''] ''e16'' 3) 0
         (Exn RuntimeError ''Graph loading failed: oom'') mock_loading_result mock_start)) = PNone"
proof -
  let ?env = "mock_env [] True succeeded_job" and ?cfg = "mock_config [''v1''] ''e16'' 3"
  let ?e = "Exn RuntimeError ''Graph loading failed: oom''"
  have a: "is_retryable_error (exn_str ?e)" by (simp add: loading_failed_is_retryable)
  have b: "retry_on_failure ?cfg" "0 < max_retries ?cfg" by (simp_all add: mock_config_def)
  have c: "truthy (engine_id mock_loading_result)" by (simp add: mock_loading_result_def)
  have d: "fst (gae_delete_engine ?env (engine_id mock_loading_result) (world mock_start)) = None"
    by (simp add: mock_env_def)
  from teardown_before_retry [OF a b c, of ?env mock_start] d
  obtain r' s' where "on_exception ?env ?cfg 0 ?e mock_loading_result mock_start = Retry r' s'"
    "engine_id r' = PNone" by auto
  with a b c d show ?thesis by simp
qed

text \<open>
  The claim as stated fails when the teardown raises: the identifier is still engine123.
\<close>

theorem engine_id_kept_when_teardown_raises:
  "is_retryable_error (exn_str (Exn RuntimeError ''Graph loading failed: oom''))
   \<and> retry_on_failure (mock_config [''v1''] ''e16'' 3)
   \<and> 0 < max_retries (mock_config [''v1''] ''e16'' 3)
   \<and> engine_id mock_loading_result = PStr ''engine123''
   \<and> fst (gae_delete_engine (mock_env [] False succeeded_job) (PStr ''engine123'')
           (world mock_start)) = Some (Exn RuntimeError ''Failed to delete engine'')
   \<and> is_retry (on_exception (mock_env [] False succeeded_job) (mock_config [''v1''] ''e16'' 3) 0
         (Exn RuntimeError ''Graph loading failed: oom'') mock_loading_result mock_start)
   \<and> engine_id (exit_result (on_exception (mock_env [] False succeeded_job)
         (mock_config [''v1''] ''e16'' 3) 0
         (Exn RuntimeError ''Graph loading failed: oom'') mock_loading_result mock_start))
       = PStr ''engine123''"
  by code_simp




text \<open>
  C9. \<open>_cleanup_engine\<close> on a result whose status is \<open>COMPLETED\<close> or \<open>FAILED\<close>
  makes its \<open>delete_engine\<close> call under the status \<open>CLEANING_UP\<close> and leaves the
  status as it was, whether the call returns or raises; and no result returned by
  \<open>run_analysis\<close> has the status \<open>CLEANING_UP\<close>.
\<close>

theorem cleaning_up_is_transient:
  "(\<forall>res r1 s1. cleanup_engine env r s = (res, r1, s1) \<and> (status r = COMPLETED \<or> status r = FAILED)
       \<longrightarrow> status r1 = status r
           \<and> calls s1 = calls s @ [Call CLEANING_UP (DeleteEngine (engine_id r))])
   \<and> (\<forall>r' s'. run_analysis env cfg s = Some (Inr r', s') \<longrightarrow> status r' \<noteq> CLEANING_UP)"
proof (intro conjI allI impI)
  fix res r1 s1
  assume a: "cleanup_engine env r s = (res, r1, s1) \<and> (status r = COMPLETED \<or> status r = FAILED)"
  then have c: "cleanup_engine env r s = (res, r1, s1)"
    and t: "status r = COMPLETED \<or> status r = FAILED" by simp_all
  from cleanup_engine_terminal [OF c t] show "status r1 = status r" by simp
  from cleanup_engine_effect [OF c]
  show "calls s1 = calls s @ [Call CLEANING_UP (DeleteEngine (engine_id r))]" by (rule conjunct1)
next
  fix r' s'
  assume "run_analysis env cfg s = Some (Inr r', s')"
  from run_analysis_Inr [OF this] obtain ext where
    "if 0 < max_attempts cfg
       then loop_summary cfg 0 (new_result cfg (clock env (world s))) ext r'
       else ext = [] \<and> r' = new_result cfg (clock env (world s))"
    by blast
  then have "status r' = COMPLETED \<or> status r' = FAILED \<or> status r' = PENDING"
    by (cases "0 < max_attempts cfg") (auto simp: loop_summary_def Let_def)
  then show "status r' \<noteq> CLEANING_UP" by auto
qed

theorem cleaning_up_is_transient_witness:
  "status mock_failed_result = FAILED
   \<and> fst (cleanup_engine (mock_env [] False succeeded_job) mock_failed_result mock_start)
       = Some (Exn RuntimeError ''Failed to delete engine'')
   \<and> status (fst (snd (cleanup_engine (mock_env [] False succeeded_job) mock_failed_result
         mock_start))) = FAILED
   \<and> map_option status (returned (run_analysis (mock_env [] False succeeded_job)
         (mock_config [''v1''] ''e16'' 3) mock_start)) = Some COMPLETED"
proof -
  let ?env = "mock_env [] False succeeded_job" and ?cfg = "mock_config [''v1''] ''e16'' 3"
  let ?out = "run_analysis ?env ?cfg mock_start"
  have a: "status mock_failed_result = FAILED" by (simp add: mock_failed_result_def)
  have b: "fst (cleanup_engine ?env mock_failed_result mock_start)
       = Some (Exn RuntimeError ''Failed to delete engine'')"
    by (simp add: cleanup_engine_def Let_def invoke_def mock_env_def split: prod.splits)
  obtain res r1 s1 where c: "cleanup_engine ?env mock_failed_result mock_start = (res, r1, s1)"
    by (cases "cleanup_engine ?env mock_failed_result mock_start")
  from cleaning_up_is_transient [of ?env mock_failed_result mock_start ?cfg] c a
  have d: "status r1 = FAILED" by auto
  from run_summary_Some [OF run_delete_fails] obtain r s' where
    "?out = Some (Inr r, s')" "status r = COMPLETED" "returned ?out = Some r" by blast
  with a b c d show ?thesis by simp
qed

text \<open>
  C10. When a run ends \<open>COMPLETED\<close> after at least one caught failure, the result's
  \<open>error_message\<close> is the message of the last caught failure (and every caught failure
  was retryable): success does not clear it.
\<close>

theorem error_message_survives_success:
  assumes "run_analysis env cfg s = Some (Inr r, s')" and "status r = COMPLETED"
  shows "\<exists>ext. calls s' = calls s @ ext
           \<and> (caught_msgs ext \<noteq> [] \<longrightarrow>
                 error_message r = Some (last (caught_msgs ext))
                 \<and> (\<forall>m \<in> set (caught_msgs ext). is_retryable_error m))"
proof -
  from run_analysis_Inr [OF assms(1)] obtain pre ext where
    c: "calls s' = calls s @ pre @ ext @
             (if truthy (engine_id r) \<and> auto_cleanup cfg
              then [Call CLEANING_UP (DeleteEngine (engine_id r))] else [])"
    and q: "quiet pre"
    and l: "if 0 < max_attempts cfg
               then loop_summary cfg 0 (new_result cfg (clock env (world s))) ext r
               else ext = [] \<and> r = new_result cfg (clock env (world s))"
    by blast
  let ?all = "pre @ ext @ (if truthy (engine_id r) \<and> auto_cleanup cfg
              then [Call CLEANING_UP (DeleteEngine (engine_id r))] else [])"
  have cm: "caught_msgs ?all = caught_msgs ext" using q by simp
  from l assms(2) have "loop_summary cfg 0 (new_result cfg (clock env (world s))) ext r"
    by (auto split: if_splits)
  with assms(2) have "caught_msgs ext \<noteq> [] \<longrightarrow>
                 error_message r = Some (last (caught_msgs ext))
                 \<and> (\<forall>m \<in> set (caught_msgs ext). is_retryable_error m)"
    by (auto simp: loop_summary_def Let_def)
  with cm c show ?thesis by (intro exI [of _ ?all]) simp
qed

theorem error_message_survives_success_witness:
  "map_option status (returned (run_analysis
         (mock_env [Some ''Transient connection error''] True succeeded_job)
         (mock_config [''v1''] ''e16'' 1) mock_start)) = Some COMPLETED
   \<and> caught_msgs (history (run_analysis
         (mock_env [Some ''Transient connection error''] True succeeded_job)
         (mock_config [''v1''] ''e16'' 1) mock_start)) = [''Transient connection error'']
   \<and> map_option error_message (returned (run_analysis
         (mock_env [Some ''Transient connection error''] True succeeded_job)
         (mock_config [''v1''] ''e16'' 1) mock_start)) = Some (Some ''Transient connection error'')"
proof -
  let ?env = "mock_env [Some ''Transient connection error''] True succeeded_job"
  let ?cfg = "mock_config [''v1''] ''e16'' 1"
  let ?out = "run_analysis ?env ?cfg mock_start"
  from run_summary_Some [OF run_transient_then_success] obtain r s' where
    out: "?out = Some (Inr r, s')" and st: "status r = COMPLETED"
    and cm: "caught_msgs (calls s') = [''Transient connection error'']"
    and ret: "returned ?out = Some r" and h: "history ?out = calls s'" by blast
  from error_message_survives_success [OF out st] obtain ext where
    e: "calls s' = calls mock_start @ ext"
    and c: "caught_msgs ext \<noteq> [] \<longrightarrow> error_message r = Some (last (caught_msgs ext))
              \<and> (\<forall>m \<in> set (caught_msgs ext). is_retryable_error m)"
    by blast
  from e have ee: "ext = calls s'" by simp
  from c cm have "error_message r = Some ''Transient connection error''" unfolding ee by simp
  with st cm ret h show ?thesis by simp
qed

end
